theory Spec2Isabelle
  imports Main
begin

section \<open>JavaScript values and the object store\<close>

text \<open>
  The two source files, \<^verbatim>\<open>src/index.js\<close> and \<^verbatim>\<open>src/unnamed/part_000\<close>, are two
  versions of one Joi extension. Both are embedded; a definition that ends in
  \<open>_index\<close> follows \<^verbatim>\<open>index.js\<close>, one that ends in \<open>_p0\<close> follows \<^verbatim>\<open>part_000\<close>, and a
  definition without suffix is text that is the same in both files.

  A value handed to the extension is a JavaScript value: \<^verbatim>\<open>undefined\<close>, \<^verbatim>\<open>null\<close>, a
  boolean, a number (the integers; \<^verbatim>\<open>NaN\<close> and fractions are left out), a string or a
  moment object. Moment objects are mutable and are passed by reference, so a moment value
  is an address into a store of objects.
\<close>

type_synonym addr = nat

datatype jsval =
    JUndefined
  | JNull
  | JBool bool
  | JNum int
  | JStr string
  | JMoment addr

text \<open>JavaScript truthiness, as tested by \<^verbatim>\<open>if (!value)\<close>, \<^verbatim>\<open>if (min && ...)\<close>.\<close>

fun truthy :: "jsval \<Rightarrow> bool" where
  "truthy JUndefined = False"
| "truthy JNull = False"
| "truthy (JBool b) = b"
| "truthy (JNum n) = (n \<noteq> 0)"
| "truthy (JStr s) = (s \<noteq> [])"
| "truthy (JMoment a) = True"

text \<open>
  A flag or argument that holds an optional string (\<^verbatim>\<open>tz\<close>, \<^verbatim>\<open>startOf\<close>, \<^verbatim>\<open>endOf\<close>,
  \<^verbatim>\<open>precision\<close>): \<open>None\<close> is \<^verbatim>\<open>undefined\<close>. \<open>flagged\<close> keeps the string when the
  JavaScript test \<^verbatim>\<open>if (flag)\<close> succeeds.
\<close>

fun flagged :: "string option \<Rightarrow> string option" where
  "flagged None = None"
| "flagged (Some s) = (if s = [] then None else Some s)"

section \<open>The moment library\<close>

text \<open>
  Modelled from the spec: the Timestamp of the data model, which the source takes from
  the moment-timezone package. It is "an opaque calendar-aware instant with a resolvable
  validity flag": the instant in milliseconds since the epoch, and the offset in minutes
  of the display timezone that projects it to civil time.
\<close>

record moment =
  isValid :: bool
  valueOf :: int
  utcOffset :: int
  tzName :: "string option"

text \<open>
  Modelled from the spec: the parts of the library that the spec leaves to "an external
  date/timezone library" are parameters: the ISO-8601 parser
  \<^verbatim>\<open>moment(x, moment.ISO_8601)\<close> and the converter \<^verbatim>\<open>moment(x)\<close> on a value \<open>x\<close>
  that is not a moment, and the timezone database, which gives each identifier it knows
  an offset in minutes. The offset of a zone is fixed: a zone that changes its offset in
  the course of the year is outside the model.
\<close>

record moment_env =
  iso_8601 :: "jsval \<Rightarrow> moment"
  createLocal :: "jsval \<Rightarrow> moment"
  zoneOffset :: "string \<Rightarrow> int option"

text \<open>
  Modelled from the spec: the named units of the library, "one of year, quarter, month,
  week, day, hour, minute, second, millisecond".
\<close>

datatype unitOfTime =
  Year | Quarter | Month | Week | Day | Hour | Minute | Second | Millisecond

text \<open>
  Modelled from the spec: the library's reading of a unit name, which the spec leaves to
  it: the singular, the plural and the short form of each unit (\<^verbatim>\<open>date\<close> is the day);
  any other string names no unit.
\<close>

definition normalizeUnits :: "string \<Rightarrow> unitOfTime option" where
  "normalizeUnits s =
     (if s \<in> {''year'', ''years'', ''y''} then Some Year
      else if s \<in> {''quarter'', ''quarters'', ''Q''} then Some Quarter
      else if s \<in> {''month'', ''months'', ''M''} then Some Month
      else if s \<in> {''week'', ''weeks'', ''w''} then Some Week
      else if s \<in> {''day'', ''days'', ''d'', ''date'', ''dates'', ''D''} then Some Day
      else if s \<in> {''hour'', ''hours'', ''h''} then Some Hour
      else if s \<in> {''minute'', ''minutes'', ''m''} then Some Minute
      else if s \<in> {''second'', ''seconds'', ''s''} then Some Second
      else if s \<in> {''millisecond'', ''milliseconds'', ''ms''} then Some Millisecond
      else None)"

subsection \<open>The calendar\<close>

text \<open>
  The spec leaves calendar arithmetic to the library ("calendar-aware"). Civil time is
  modelled as the proleptic Gregorian calendar over day numbers counted from 1970-01-01.
\<close>

text \<open>
  Modelled from the spec: the leap years of the library's calendar.
\<close>

definition isLeapYear :: "int \<Rightarrow> bool" where
  "isLeapYear y = (y mod 400 = 0 \<or> (y mod 4 = 0 \<and> y mod 100 \<noteq> 0))"

text \<open>
  Modelled from the spec: the number of days of a year of the library's calendar.
\<close>

definition daysInYear :: "int \<Rightarrow> int" where
  "daysInYear y = (if isLeapYear y then 366 else 365)"

text \<open>
  Modelled from the spec: the day number of 1 January of year \<open>y\<close> in the library's
  calendar: 365 days for each year since 1970 and one more for each leap year between.
\<close>

definition daysBeforeYear :: "int \<Rightarrow> int" where
  "daysBeforeYear y =
     365 * (y - 1970) + ((y - 1) div 4 - (y - 1) div 100 + (y - 1) div 400) - 477"

text \<open>
  Modelled from the spec: the lengths of the twelve months of a year of the library's calendar.
\<close>

definition monthLengths :: "int \<Rightarrow> nat list" where
  "monthLengths y =
     [31, if isLeapYear y then 29 else 28, 31, 30, 31, 30, 31, 31, 30, 31, 30, 31]"

text \<open>
  Modelled from the spec: the days of a year of the library's calendar that lie before its
  month \<open>m\<close>, counted from 0; for \<open>m = 12\<close> the whole year.
\<close>

definition daysBeforeMonth :: "int \<Rightarrow> nat \<Rightarrow> int" where
  "daysBeforeMonth y m = int (sum_list (take m (monthLengths y)))"

text \<open>
  Modelled from the spec: the year of a day number in the library's calendar is found by a
  search from an estimate; this is the search down to a year that starts on or before the
  day.
\<close>

function yearDown :: "int \<Rightarrow> int \<Rightarrow> int" where
  "yearDown d y = (if d < daysBeforeYear y then yearDown d (y - 1) else y)"
  by pat_completeness auto

text \<open>
  Modelled from the spec: the search of the library's calendar up to the last year that
  starts on or before the day.
\<close>

function yearUp :: "int \<Rightarrow> int \<Rightarrow> int" where
  "yearUp d y = (if daysBeforeYear (y + 1) \<le> d then yearUp d (y + 1) else y)"
  by pat_completeness auto

text \<open>
  The search ends because every year has at least 365 days: the day number of 1 January
  grows strictly from year to year.
\<close>

lemma div_step:
  fixes y k :: int
  assumes "0 < k"
  shows "(y + 1) div k = y div k + (if (y + 1) mod k = 0 then 1 else 0)"
proof -
  define q r where "q = y div k" and "r = y mod k"
  have y: "y = k * q + r" and r: "0 \<le> r" "r < k"
    using assms by (simp_all add: q_def r_def)
  show ?thesis
  proof (cases "r + 1 = k")
    case True
    then have e: "y + 1 = k * (q + 1) + 0" using y by (simp add: algebra_simps)
    have "(y + 1) div k = q + 1" using assms by (subst e) simp
    moreover have "(y + 1) mod k = 0" using assms by (subst e) simp
    ultimately show ?thesis by (simp add: q_def)
  next
    case False
    then have b: "0 \<le> r + 1" "r + 1 < k" using r by auto
    have e: "y + 1 = k * q + (r + 1)" using y by simp
    have "(y + 1) div k = q" using b by (subst e) (rule int_div_pos_eq, auto)
    moreover have "(y + 1) mod k = r + 1" using b by (subst e) (rule int_mod_pos_eq, auto)
    ultimately show ?thesis using r by (simp add: q_def)
  qed
qed

lemma mod_400_100: "(y::int) mod 400 = 0 \<Longrightarrow> y mod 100 = 0"
proof -
  assume "y mod 400 = 0"
  then have "400 dvd y" by (simp add: dvd_eq_mod_eq_0)
  moreover have "(100::int) dvd 400" by simp
  ultimately have "100 dvd y" by (rule dvd_trans [rotated])
  then show ?thesis by simp
qed

lemma mod_100_4: "(y::int) mod 100 = 0 \<Longrightarrow> y mod 4 = 0"
proof -
  assume "y mod 100 = 0"
  then have "100 dvd y" by (simp add: dvd_eq_mod_eq_0)
  moreover have "(4::int) dvd 100" by simp
  ultimately have "4 dvd y" by (rule dvd_trans [rotated])
  then show ?thesis by simp
qed

lemma daysBeforeYear_step: "daysBeforeYear (y + 1) = daysBeforeYear y + daysInYear y"
proof -
  have a: "y div 4 = (y - 1) div 4 + (if y mod 4 = 0 then 1 else 0)"
    using div_step [of 4 "y - 1"] by simp
  have b: "y div 100 = (y - 1) div 100 + (if y mod 100 = 0 then 1 else 0)"
    using div_step [of 100 "y - 1"] by simp
  have c: "y div 400 = (y - 1) div 400 + (if y mod 400 = 0 then 1 else 0)"
    using div_step [of 400 "y - 1"] by simp
  show ?thesis
    using mod_400_100 [of y] mod_100_4 [of y]
    unfolding daysBeforeYear_def daysInYear_def isLeapYear_def
    by (simp add: a b c)
qed

lemma daysInYear_pos: "0 < daysInYear y"
  by (simp add: daysInYear_def)

lemma daysBeforeYear_less_next: "daysBeforeYear y < daysBeforeYear (y + 1)"
  using daysInYear_pos [of y] by (simp add: daysBeforeYear_step)

lemma daysBeforeYear_prev_less: "daysBeforeYear (y - 1) < daysBeforeYear y"
  using daysBeforeYear_less_next [of "y - 1"] by simp

termination yearDown
proof (relation "measure (\<lambda>(d, y). nat (daysBeforeYear y - d))")
  show "wf (measure (\<lambda>(d, y). nat (daysBeforeYear y - d)))" by simp
next
  fix d y :: int
  assume "d < daysBeforeYear y"
  then show "((d, y - 1), (d, y)) \<in> measure (\<lambda>(d, y). nat (daysBeforeYear y - d))"
    using daysBeforeYear_prev_less [of y] by simp
qed

termination yearUp
proof (relation "measure (\<lambda>(d, y). nat (d - daysBeforeYear (y + 1) + 1))")
  show "wf (measure (\<lambda>(d, y). nat (d - daysBeforeYear (y + 1) + 1)))" by simp
next
  fix d y :: int
  assume "daysBeforeYear (y + 1) \<le> d"
  then show "((d, y + 1), (d, y)) \<in> measure (\<lambda>(d, y). nat (d - daysBeforeYear (y + 1) + 1))"
    using daysBeforeYear_less_next [of "y + 1"] by simp
qed

text \<open>
  Modelled from the spec: the year of a day number in the library's calendar, by the two
  searches from the estimate of 365 days a year.
\<close>

definition yearOfDay :: "int \<Rightarrow> int" where
  "yearOfDay d = yearUp d (yearDown d (1970 + d div 365))"

text \<open>
  Modelled from the spec: the month (counted from 0, as the library does) and the day within
  it, by walking the month lengths of the year.
\<close>

fun splitMonths :: "nat list \<Rightarrow> nat \<Rightarrow> nat \<times> nat" where
  "splitMonths [] r = (0, r)"
| "splitMonths (l # ls) r =
     (if r < l then (0, r)
      else case splitMonths ls (r - l) of (m, r') \<Rightarrow> (Suc m, r'))"

text \<open>
  Modelled from the spec: the civil date of a day number: year, month from 0, day of the
  month from 1.
\<close>

definition civil :: "int \<Rightarrow> int \<times> nat \<times> int" where
  "civil d =
     (let y = yearOfDay d
      in case splitMonths (monthLengths y) (nat (d - daysBeforeYear y)) of
           (m, r) \<Rightarrow> (y, m, int r + 1))"

text \<open>
  Modelled from the spec: the first millisecond of a civil date, as civil time. The day
  of the month may run over the month's ends and the month may be 12, which is January of
  the next year; both are used below.
\<close>

definition utcStartOfDate :: "int \<Rightarrow> nat \<Rightarrow> int \<Rightarrow> int" where
  "utcStartOfDate y m dd = (daysBeforeYear y + daysBeforeMonth y m + (dd - 1)) * 86400000"

text \<open>
  Modelled from the spec: the day of the week, Sunday being 0; 1970-01-01 was a Thursday.
\<close>

definition weekday :: "int \<Rightarrow> int" where
  "weekday d = (d + 4) mod 7"

subsection \<open>Start and end of a unit\<close>

text \<open>
  Modelled from the spec: the first millisecond of the unit of the library that holds the
  civil time \<open>t\<close>: "truncate a timestamp to the first or last instant within its
  containing unit (e.g., start of month = first instant of that month)". The week starts
  on Sunday.
\<close>

definition startOfLocal :: "unitOfTime \<Rightarrow> int \<Rightarrow> int" where
  "startOfLocal u t =
     (let d = t div 86400000
      in case civil d of (y, m, dd) \<Rightarrow>
        (case u of
           Year \<Rightarrow> utcStartOfDate y 0 1
         | Quarter \<Rightarrow> utcStartOfDate y (m - m mod 3) 1
         | Month \<Rightarrow> utcStartOfDate y m 1
         | Week \<Rightarrow> utcStartOfDate y m (dd - weekday d)
         | Day \<Rightarrow> utcStartOfDate y m dd
         | Hour \<Rightarrow> t - t mod 3600000
         | Minute \<Rightarrow> t - t mod 60000
         | Second \<Rightarrow> t - t mod 1000
         | Millisecond \<Rightarrow> t))"

text \<open>
  Modelled from the spec: the last millisecond of the unit of the library that holds the
  civil time \<open>t\<close>: one millisecond before the start of the next unit ("end of day =
  23:59:59.999").
\<close>

definition endOfLocal :: "unitOfTime \<Rightarrow> int \<Rightarrow> int" where
  "endOfLocal u t =
     (let d = t div 86400000
      in case civil d of (y, m, dd) \<Rightarrow>
        (case u of
           Year \<Rightarrow> utcStartOfDate (y + 1) 0 1 - 1
         | Quarter \<Rightarrow> utcStartOfDate y (m - m mod 3 + 3) 1 - 1
         | Month \<Rightarrow> utcStartOfDate y (m + 1) 1 - 1
         | Week \<Rightarrow> utcStartOfDate y m (dd - weekday d + 7) - 1
         | Day \<Rightarrow> utcStartOfDate y m (dd + 1) - 1
         | Hour \<Rightarrow> t + (3600000 - t mod 3600000) - 1
         | Minute \<Rightarrow> t + (60000 - t mod 60000) - 1
         | Second \<Rightarrow> t + (1000 - t mod 1000) - 1
         | Millisecond \<Rightarrow> t))"

text \<open>Modelled from the spec: the civil-time projection of a timestamp.\<close>

definition localTime :: "moment \<Rightarrow> int" where
  "localTime m = valueOf m + utcOffset m * 60000"

text \<open>
  Modelled from the spec: the library's truncation of a timestamp to the start of a unit:
  "start of day zeroes the time-of-day in the current timezone". The truncation is made
  on civil time in the timestamp's own timezone; the millisecond and an invalid timestamp
  leave the timestamp as it is.
\<close>

definition startOfUnit :: "unitOfTime \<Rightarrow> moment \<Rightarrow> moment" where
  "startOfUnit u m =
     (if u = Millisecond \<or> \<not> isValid m then m
      else m\<lparr>valueOf := startOfLocal u (localTime m) - utcOffset m * 60000\<rparr>)"

text \<open>
  Modelled from the spec: the library's truncation of a timestamp up to the end of a unit,
  on civil time in the timestamp's own timezone.
\<close>

definition endOfUnit :: "unitOfTime \<Rightarrow> moment \<Rightarrow> moment" where
  "endOfUnit u m =
     (if u = Millisecond \<or> \<not> isValid m then m
      else m\<lparr>valueOf := endOfLocal u (localTime m) - utcOffset m * 60000\<rparr>)"

text \<open>
  Modelled from the spec: \<^verbatim>\<open>m.startOf(units)\<close> of the library, on a unit given by
  name; a name the library does not know leaves the timestamp as it is.
\<close>

definition startOf :: "string \<Rightarrow> moment \<Rightarrow> moment" where
  "startOf units m = (case normalizeUnits units of None \<Rightarrow> m | Some u \<Rightarrow> startOfUnit u m)"

text \<open>
  Modelled from the spec: \<^verbatim>\<open>m.endOf(units)\<close> of the library, on a unit given by name; a
  name the library does not know leaves the timestamp as it is.
\<close>

definition endOf :: "string \<Rightarrow> moment \<Rightarrow> moment" where
  "endOf units m = (case normalizeUnits units of None \<Rightarrow> m | Some u \<Rightarrow> endOfUnit u m)"

text \<open>
  Modelled from the spec: \<^verbatim>\<open>m.tz(name)\<close> of the library: "reassign the timestamp's
  display timezone (the underlying instant does not move, only its civil-time
  projection)". A name the database does not know leaves the timestamp as it is.
\<close>

definition tz :: "moment_env \<Rightarrow> string \<Rightarrow> moment \<Rightarrow> moment" where
  "tz E name m =
     (case zoneOffset E name of
        None \<Rightarrow> m
      | Some off \<Rightarrow> m\<lparr>utcOffset := off, tzName := Some name\<rparr>)"

subsection \<open>Comparison at a precision\<close>

text \<open>
  Modelled from the spec: the unit a comparison uses: "default precision to millisecond
  granularity when unset", and for a name the library does not know.
\<close>

definition precisionUnit :: "string option \<Rightarrow> unitOfTime" where
  "precisionUnit units =
     (case units of
        None \<Rightarrow> Millisecond
      | Some s \<Rightarrow> (case normalizeUnits s of None \<Rightarrow> Millisecond | Some u \<Rightarrow> u))"

text \<open>
  Modelled from the spec: \<^verbatim>\<open>m.isBefore(input, units)\<close> of the library, an "ordered
  comparison at a given precision granularity (comparisons are precision-truncating)":
  the end of the unit that holds \<open>m\<close> is before the instant of \<open>input\<close>. A comparison
  with an invalid timestamp is false.
\<close>

definition isBefore :: "moment \<Rightarrow> moment \<Rightarrow> string option \<Rightarrow> bool" where
  "isBefore m input units =
     (isValid m \<and> isValid input \<and>
      (case precisionUnit units of
         Millisecond \<Rightarrow> valueOf m < valueOf input
       | u \<Rightarrow> valueOf (endOfUnit u m) < valueOf input))"

text \<open>
  Modelled from the spec: \<^verbatim>\<open>m.isAfter(input, units)\<close> of the library: the start of the
  unit that holds \<open>m\<close> is after the instant of \<open>input\<close>.
\<close>

definition isAfter :: "moment \<Rightarrow> moment \<Rightarrow> string option \<Rightarrow> bool" where
  "isAfter m input units =
     (isValid m \<and> isValid input \<and>
      (case precisionUnit units of
         Millisecond \<Rightarrow> valueOf input < valueOf m
       | u \<Rightarrow> valueOf input < valueOf (startOfUnit u m)))"

text \<open>
  Modelled from the spec: \<^verbatim>\<open>m.isSame(input, units)\<close> of the library: the instant of
  \<open>input\<close> lies within the unit that holds \<open>m\<close> ("treats two instants differing only
  in time-of-day as equal" at the precision of the day).
\<close>

definition isSame :: "moment \<Rightarrow> moment \<Rightarrow> string option \<Rightarrow> bool" where
  "isSame m input units =
     (isValid m \<and> isValid input \<and>
      (case precisionUnit units of
         Millisecond \<Rightarrow> valueOf m = valueOf input
       | u \<Rightarrow> valueOf (startOfUnit u m) \<le> valueOf input \<and>
              valueOf input \<le> valueOf (endOfUnit u m)))"

text \<open>
  Modelled from the spec: \<^verbatim>\<open>m.isSameOrBefore(input, units)\<close> of the library.
\<close>

definition isSameOrBefore :: "moment \<Rightarrow> moment \<Rightarrow> string option \<Rightarrow> bool" where
  "isSameOrBefore m input units = (isSame m input units \<or> isBefore m input units)"

text \<open>
  Modelled from the spec: \<^verbatim>\<open>m.isSameOrAfter(input, units)\<close> of the library.
\<close>

definition isSameOrAfter :: "moment \<Rightarrow> moment \<Rightarrow> string option \<Rightarrow> bool" where
  "isSameOrAfter m input units = (isSame m input units \<or> isAfter m input units)"

section \<open>The store of moment objects\<close>

text \<open>
  Moment objects live in a store; \<open>next_addr\<close> is the first address not yet in use.
  \<^verbatim>\<open>moment(...)\<close> makes a new object, and \<^verbatim>\<open>value.tz(..)\<close>, \<^verbatim>\<open>value.startOf(..)\<close> and
  \<^verbatim>\<open>value.endOf(..)\<close> change the object they are called on.
\<close>

record store =
  obj :: "addr \<Rightarrow> moment"
  next_addr :: addr

definition alloc :: "moment \<Rightarrow> store \<Rightarrow> addr \<times> store" where
  "alloc m st =
     (next_addr st, st\<lparr>obj := (obj st)(next_addr st := m), next_addr := Suc (next_addr st)\<rparr>)"

definition mutate :: "addr \<Rightarrow> (moment \<Rightarrow> moment) \<Rightarrow> store \<Rightarrow> store" where
  "mutate a f st = st\<lparr>obj := (obj st)(a := f (obj st a))\<rparr>"

text \<open>
  Modelled from the spec: the library's reading of the argument of a comparison,
  \<^verbatim>\<open>value.isBefore(input)\<close>: "if already a concrete timestamp, use directly", and
  anything else is converted with \<^verbatim>\<open>moment(input)\<close>.
\<close>

definition toMoment :: "moment_env \<Rightarrow> store \<Rightarrow> jsval \<Rightarrow> moment" where
  "toMoment E st v = (case v of JMoment a \<Rightarrow> obj st a | _ \<Rightarrow> createLocal E v)"

section \<open>Schemas, helpers and results\<close>

text \<open>
  A date given to \<^verbatim>\<open>minDate\<close>, \<^verbatim>\<open>maxDate\<close> or a comparison rule is a value or a
  reference (\<^verbatim>\<open>Joi.isRef\<close>, \<^verbatim>\<open>ref: true\<close>) that names a value of the validation scope.
\<close>

datatype dateArg = Lit jsval | Ref string

text \<open>A rule as \<^verbatim>\<open>$_addRule({name, args: {date, precision}})\<close> stores it.\<close>

record rule =
  rule_name :: string
  arg_date :: dateArg
  arg_precision :: "string option"

text \<open>
  The flags of a schema, read with \<^verbatim>\<open>$_getFlag\<close>, and its rules. \<^verbatim>\<open>index.js\<close> keeps
  the bounds in the flags \<^verbatim>\<open>max\<close> and \<^verbatim>\<open>min\<close> and uses them as they are; \<^verbatim>\<open>part_000\<close>
  keeps them in \<^verbatim>\<open>maxDate\<close> and \<^verbatim>\<open>minDate\<close> and resolves a reference.
\<close>

record base_schema =
  flag_tz :: "string option"
  flag_startOf :: "string option"
  flag_endOf :: "string option"
  rules :: "rule list"

record schema_index = base_schema +
  flag_max :: jsval
  flag_min :: jsval

record schema_p0 = base_schema +
  flag_maxDate :: dateArg
  flag_minDate :: dateArg

text \<open>
  What \<^verbatim>\<open>coerce\<close> receives besides the value: the schema, the validation scope against
  which a reference is resolved (\<^verbatim>\<open>ref.resolve(value, state, prefs)\<close>, \<open>JUndefined\<close> for
  a reference that resolves to nothing), and \<^verbatim>\<open>prefs.context\<close>, which is \<^verbatim>\<open>null\<close>
  (\<open>None\<close>) when the caller gave no context.
\<close>

record validation_context =
  timezone :: "string option"

record 's helpers =
  schema :: 's
  resolve :: "string \<Rightarrow> jsval"
  prefs_context :: "validation_context option"

text \<open>
  The date a rule reports: a moment the rule has parsed from a string, or the argument as
  it was given. An error \<^verbatim>\<open>helpers.error(code, {date, precision})\<close> is its code and the
  data for the message; \<^verbatim>\<open>helpers.error('date.iso')\<close> has no data.
\<close>

datatype dateval = Parsed moment | Given jsval

datatype report = Report string "(dateval \<times> string) option"

text \<open>
  How a function of the source ends: \<^verbatim>\<open>return;\<close> or the end of the body,
  \<^verbatim>\<open>return value\<close>, \<^verbatim>\<open>return {value}\<close>, \<^verbatim>\<open>return {value, errors}\<close>,
  \<^verbatim>\<open>return helpers.error(...)\<close>, or a TypeError: a method called on a value that is
  not a moment, or a property read from \<^verbatim>\<open>null\<close>.
\<close>

datatype outcome =
    ReturnsNothing
  | Returns jsval
  | ReturnsValue jsval
  | ReturnsErrors jsval report
  | ReturnsError report
  | Throws

section \<open>coerce\<close>

text \<open>
  \<^verbatim>\<open>value = moment(value, moment.ISO_8601)\<close> (\<^verbatim>\<open>index.js\<close>, line 28): always a new
  object; the library copies a value that is a moment already and parses any other.
\<close>

definition convert_index :: "moment_env \<Rightarrow> store \<Rightarrow> jsval \<Rightarrow> addr \<times> store" where
  "convert_index E st v =
     (case v of
        JMoment b \<Rightarrow> alloc (obj st b) st
      | _ \<Rightarrow> alloc (iso_8601 E v) st)"

text \<open>
  \<^verbatim>\<open>if (!moment.isMoment(value)) { value = moment(value, moment.ISO_8601); }\<close>
  (\<^verbatim>\<open>part_000\<close>, lines 28 to 30): a moment is kept as the object it is.
\<close>

definition convert_p0 :: "moment_env \<Rightarrow> store \<Rightarrow> jsval \<Rightarrow> addr \<times> store" where
  "convert_p0 E st v =
     (case v of
        JMoment b \<Rightarrow> (b, st)
      | _ \<Rightarrow> alloc (iso_8601 E v) st)"

text \<open>
  "Apply a timezone", \<^verbatim>\<open>index.js\<close> lines 42 to 45:
  \<^verbatim>\<open>if (tz) { value.tz(tz); }\<close>
\<close>

definition applyTimezone_index :: "moment_env \<Rightarrow> string option \<Rightarrow> addr \<Rightarrow> store \<Rightarrow> store" where
  "applyTimezone_index E tzf a st =
     (case flagged tzf of
        Some z \<Rightarrow> mutate a (tz E z) st
      | None \<Rightarrow> st)"

text \<open>
  "Apply a timezone", \<^verbatim>\<open>part_000\<close> lines 52 to 58:
  \<^verbatim>\<open>if (tz) { value.tz(tz); } else if (prefs.context.timezone) { value.tz(prefs.context.timezone); }\<close>
  Reading \<^verbatim>\<open>prefs.context.timezone\<close> when \<^verbatim>\<open>prefs.context\<close> is \<^verbatim>\<open>null\<close> throws
  (\<open>None\<close>).
\<close>

definition applyTimezone_p0 ::
  "moment_env \<Rightarrow> string option \<Rightarrow> validation_context option \<Rightarrow> addr \<Rightarrow> store \<Rightarrow> store option" where
  "applyTimezone_p0 E tzf ctx a st =
     (case flagged tzf of
        Some z \<Rightarrow> Some (mutate a (tz E z) st)
      | None \<Rightarrow>
          (case ctx of
             None \<Rightarrow> None
           | Some c \<Rightarrow>
               (case flagged (timezone c) of
                  Some z \<Rightarrow> Some (mutate a (tz E z) st)
                | None \<Rightarrow> Some st)))"

text \<open>
  "Start of period", "End of period" (\<^verbatim>\<open>index.js\<close> lines 47 to 55, \<^verbatim>\<open>part_000\<close> lines
  60 to 66):
  \<^verbatim>\<open>if (startOf) { value.startOf(startOf); } if (endOf) { value.endOf(endOf); }\<close>
\<close>

definition applyPeriod :: "string option \<Rightarrow> string option \<Rightarrow> addr \<Rightarrow> store \<Rightarrow> store" where
  "applyPeriod sf ef a st =
     (let st1 = (case flagged sf of Some u \<Rightarrow> mutate a (startOf u) st | None \<Rightarrow> st)
      in case flagged ef of Some u \<Rightarrow> mutate a (endOf u) st1 | None \<Rightarrow> st1)"

text \<open>
  "Min date", "Max date" and the return (\<^verbatim>\<open>index.js\<close> lines 57 to 68, \<^verbatim>\<open>part_000\<close>
  lines 68 to 77):
  \<^verbatim>\<open>if (min && value.isBefore(min)) { value = min; }
  if (max && value.isAfter(max)) { value = max; }
  return {value};\<close>
  When the first assignment has made \<^verbatim>\<open>value\<close> a bound that is not a moment,
  \<^verbatim>\<open>value.isAfter\<close> is not a function and the call throws.
\<close>

definition clamp :: "moment_env \<Rightarrow> store \<Rightarrow> addr \<Rightarrow> jsval \<Rightarrow> jsval \<Rightarrow> outcome" where
  "clamp E st a mn mx =
     (let v1 = (if truthy mn \<and> isBefore (obj st a) (toMoment E st mn) None
                then mn else JMoment a)
      in if truthy mx then
           (case v1 of
              JMoment b \<Rightarrow>
                if isAfter (obj st b) (toMoment E st mx) None
                then ReturnsValue mx else ReturnsValue v1
            | _ \<Rightarrow> Throws)
         else ReturnsValue v1)"

text \<open>\<^verbatim>\<open>coerce(value, helpers)\<close> of \<^verbatim>\<open>index.js\<close>, lines 20 to 69.\<close>

definition coerce_index ::
  "moment_env \<Rightarrow> schema_index helpers \<Rightarrow> store \<Rightarrow> jsval \<Rightarrow> outcome \<times> store" where
  "coerce_index E H st v =
     (if \<not> truthy v then (ReturnsNothing, st)
      else case convert_index E st v of (a, st1) \<Rightarrow>
        if \<not> isValid (obj st1 a) then (ReturnsNothing, st1)
        else
          let st2 = applyTimezone_index E (flag_tz (schema H)) a st1;
              st3 = applyPeriod (flag_startOf (schema H)) (flag_endOf (schema H)) a st2
          in (clamp E st3 a (flag_min (schema H)) (flag_max (schema H)), st3))"

text \<open>
  "Resolve references" (\<^verbatim>\<open>part_000\<close> lines 44 to 50):
  \<^verbatim>\<open>if (Joi.isRef(minDate)) { minDate = minDate.resolve(value, state, prefs); }\<close>
\<close>

definition resolveArg :: "(string \<Rightarrow> jsval) \<Rightarrow> dateArg \<Rightarrow> jsval" where
  "resolveArg res d = (case d of Lit v \<Rightarrow> v | Ref k \<Rightarrow> res k)"

text \<open>\<^verbatim>\<open>coerce(value, {schema, state, prefs})\<close> of \<^verbatim>\<open>part_000\<close>, lines 20 to 78.\<close>

definition coerce_p0 ::
  "moment_env \<Rightarrow> schema_p0 helpers \<Rightarrow> store \<Rightarrow> jsval \<Rightarrow> outcome \<times> store" where
  "coerce_p0 E H st v =
     (if \<not> truthy v then (ReturnsNothing, st)
      else case convert_p0 E st v of (a, st1) \<Rightarrow>
        if \<not> isValid (obj st1 a) then (ReturnsNothing, st1)
        else
          let minDate = resolveArg (resolve H) (flag_minDate (schema H));
              maxDate = resolveArg (resolve H) (flag_maxDate (schema H))
          in case applyTimezone_p0 E (flag_tz (schema H)) (prefs_context H) a st1 of
               None \<Rightarrow> (Throws, st1)
             | Some st2 \<Rightarrow>
                 let st3 = applyPeriod (flag_startOf (schema H)) (flag_endOf (schema H)) a st2
                 in (clamp E st3 a minDate maxDate, st3))"

section \<open>validate\<close>

text \<open>
  \<^verbatim>\<open>validate(value, helpers)\<close>, the same in both files (\<^verbatim>\<open>index.js\<close> lines 70 to 82,
  \<^verbatim>\<open>part_000\<close> lines 79 to 91). A truthy value that is not a moment has no method
  \<^verbatim>\<open>isValid\<close>, and the call throws.
\<close>

definition validate :: "store \<Rightarrow> jsval \<Rightarrow> outcome" where
  "validate st v =
     (if \<not> truthy v then Returns v
      else case v of
        JMoment a \<Rightarrow>
          if \<not> isValid (obj st a) then ReturnsErrors v (Report ''date.iso'' None)
          else ReturnsNothing
      | _ \<Rightarrow> Throws)"

section \<open>The comparison rules\<close>

text \<open>
  The body that the four \<^verbatim>\<open>validate(value, helpers, args)\<close> of \<^verbatim>\<open>index.js\<close> share (lines
  129 to 141, 163 to 175, 197 to 209, 231 to 243); they differ in the comparison \<open>cmp\<close>
  and in the error code:
  \<^verbatim>\<open>let {date, precision} = args;
  if (!precision) { precision = 'milliseconds'; }
  if (typeof date === 'string') { date = moment(date, moment.ISO_8601); }
  if (!moment.isMoment(value) || value.cmp(date, precision)) { return value; }
  return helpers.error(code, {date, precision});\<close>
\<close>

definition dateMoment :: "moment_env \<Rightarrow> store \<Rightarrow> dateval \<Rightarrow> moment" where
  "dateMoment E st d = (case d of Parsed m \<Rightarrow> m | Given v \<Rightarrow> toMoment E st v)"

definition compare_validate ::
  "(moment \<Rightarrow> moment \<Rightarrow> string option \<Rightarrow> bool) \<Rightarrow> string \<Rightarrow>
   moment_env \<Rightarrow> store \<Rightarrow> jsval \<Rightarrow> jsval \<Rightarrow> string option \<Rightarrow> outcome" where
  "compare_validate cmp code E st v date precision =
     (let precision' = (case flagged precision of None \<Rightarrow> ''milliseconds'' | Some p \<Rightarrow> p);
          date' = (case date of JStr s \<Rightarrow> Parsed (iso_8601 E (JStr s)) | _ \<Rightarrow> Given date)
      in case v of
           JMoment a \<Rightarrow>
             if cmp (obj st a) (dateMoment E st date') (Some precision') then Returns v
             else ReturnsError (Report code (Some (date', precision')))
         | _ \<Rightarrow> Returns v)"

definition isBefore_validate_index ::
  "moment_env \<Rightarrow> store \<Rightarrow> jsval \<Rightarrow> jsval \<Rightarrow> string option \<Rightarrow> outcome" where
  "isBefore_validate_index = compare_validate isBefore ''moment.isBefore''"

definition isAfter_validate_index ::
  "moment_env \<Rightarrow> store \<Rightarrow> jsval \<Rightarrow> jsval \<Rightarrow> string option \<Rightarrow> outcome" where
  "isAfter_validate_index = compare_validate isAfter ''moment.isAfter''"

definition isSameOrBefore_validate_index ::
  "moment_env \<Rightarrow> store \<Rightarrow> jsval \<Rightarrow> jsval \<Rightarrow> string option \<Rightarrow> outcome" where
  "isSameOrBefore_validate_index = compare_validate isSameOrBefore ''moment.isSameOrBefore''"

definition isSameOrAfter_validate_index ::
  "moment_env \<Rightarrow> store \<Rightarrow> jsval \<Rightarrow> jsval \<Rightarrow> string option \<Rightarrow> outcome" where
  "isSameOrAfter_validate_index = compare_validate isSameOrAfter ''moment.isSameOrAfter''"

text \<open>
  The four \<^verbatim>\<open>validate(value, helpers, args)\<close> of \<^verbatim>\<open>part_000\<close> (lines 150 to 165, 189 to
  204, 228 to 243, 267 to 282) start with
  \<^verbatim>\<open>if (!date) { return value; }\<close>
  and go on as those of \<^verbatim>\<open>index.js\<close>.
\<close>

definition guarded_validate ::
  "(moment \<Rightarrow> moment \<Rightarrow> string option \<Rightarrow> bool) \<Rightarrow> string \<Rightarrow>
   moment_env \<Rightarrow> store \<Rightarrow> jsval \<Rightarrow> jsval \<Rightarrow> string option \<Rightarrow> outcome" where
  "guarded_validate cmp code E st v date precision =
     (if \<not> truthy date then Returns v
      else compare_validate cmp code E st v date precision)"

definition isBefore_validate_p0 ::
  "moment_env \<Rightarrow> store \<Rightarrow> jsval \<Rightarrow> jsval \<Rightarrow> string option \<Rightarrow> outcome" where
  "isBefore_validate_p0 = guarded_validate isBefore ''moment.isBefore''"

definition isAfter_validate_p0 ::
  "moment_env \<Rightarrow> store \<Rightarrow> jsval \<Rightarrow> jsval \<Rightarrow> string option \<Rightarrow> outcome" where
  "isAfter_validate_p0 = guarded_validate isAfter ''moment.isAfter''"

definition isSameOrBefore_validate_p0 ::
  "moment_env \<Rightarrow> store \<Rightarrow> jsval \<Rightarrow> jsval \<Rightarrow> string option \<Rightarrow> outcome" where
  "isSameOrBefore_validate_p0 = guarded_validate isSameOrBefore ''moment.isSameOrBefore''"

definition isSameOrAfter_validate_p0 ::
  "moment_env \<Rightarrow> store \<Rightarrow> jsval \<Rightarrow> jsval \<Rightarrow> string option \<Rightarrow> outcome" where
  "isSameOrAfter_validate_p0 = guarded_validate isSameOrAfter ''moment.isSameOrAfter''"

text \<open>
  The \<^verbatim>\<open>rules\<close> object of each file, by key: the rules that have a \<^verbatim>\<open>validate\<close>.
\<close>

definition rules_index ::
  "moment_env \<Rightarrow> (string \<times> (store \<Rightarrow> jsval \<Rightarrow> jsval \<Rightarrow> string option \<Rightarrow> outcome)) list" where
  "rules_index E =
     [(''isBefore'', isBefore_validate_index E),
      (''isAfter'', isAfter_validate_index E),
      (''isSameOrBefore'', isSameOrBefore_validate_index E),
      (''isSameOrAfter'', isSameOrAfter_validate_index E)]"

definition rules_p0 ::
  "moment_env \<Rightarrow> (string \<times> (store \<Rightarrow> jsval \<Rightarrow> jsval \<Rightarrow> string option \<Rightarrow> outcome)) list" where
  "rules_p0 E =
     [(''isBefore'', isBefore_validate_p0 E),
      (''isAfter'', isAfter_validate_p0 E),
      (''isSameOrBefore'', isSameOrBefore_validate_p0 E),
      (''isSameOrAfter'', isSameOrAfter_validate_p0 E)]"

text \<open>
  Modelled from the spec: \<^verbatim>\<open>this.$_addRule(rule)\<close> of the validation framework: "each
  configuration method returns a new Config value", here the schema with the rule added
  at the end of its "ordered sequence" of rules.
\<close>

definition addRule :: "rule \<Rightarrow> 'a base_schema_scheme \<Rightarrow> 'a base_schema_scheme" where
  "addRule r sch = sch\<lparr>rules := rules sch @ [r]\<rparr>"

text \<open>
  The \<^verbatim>\<open>method(date, precision)\<close> of each rule:
  \<^verbatim>\<open>return this.$_addRule({name: ..., args: {date, precision}});\<close>
  In \<^verbatim>\<open>index.js\<close> the method of \<^verbatim>\<open>isSameOrBefore\<close> adds a rule named \<^verbatim>\<open>'isBefore'\<close>
  (line 180) and that of \<^verbatim>\<open>isSameOrAfter\<close> one named \<^verbatim>\<open>'isAfter'\<close> (line 214);
  in \<^verbatim>\<open>part_000\<close> each method adds a rule of its own name (lines 209 and 248).
\<close>

definition isBefore_method ::
  "dateArg \<Rightarrow> string option \<Rightarrow> 'a base_schema_scheme \<Rightarrow> 'a base_schema_scheme" where
  "isBefore_method date precision =
     addRule \<lparr>rule_name = ''isBefore'', arg_date = date, arg_precision = precision\<rparr>"

definition isAfter_method ::
  "dateArg \<Rightarrow> string option \<Rightarrow> 'a base_schema_scheme \<Rightarrow> 'a base_schema_scheme" where
  "isAfter_method date precision =
     addRule \<lparr>rule_name = ''isAfter'', arg_date = date, arg_precision = precision\<rparr>"

definition isSameOrBefore_method_index ::
  "dateArg \<Rightarrow> string option \<Rightarrow> schema_index \<Rightarrow> schema_index" where
  "isSameOrBefore_method_index date precision =
     addRule \<lparr>rule_name = ''isBefore'', arg_date = date, arg_precision = precision\<rparr>"

definition isSameOrAfter_method_index ::
  "dateArg \<Rightarrow> string option \<Rightarrow> schema_index \<Rightarrow> schema_index" where
  "isSameOrAfter_method_index date precision =
     addRule \<lparr>rule_name = ''isAfter'', arg_date = date, arg_precision = precision\<rparr>"

definition isSameOrBefore_method_p0 ::
  "dateArg \<Rightarrow> string option \<Rightarrow> schema_p0 \<Rightarrow> schema_p0" where
  "isSameOrBefore_method_p0 date precision =
     addRule \<lparr>rule_name = ''isSameOrBefore'', arg_date = date, arg_precision = precision\<rparr>"

definition isSameOrAfter_method_p0 ::
  "dateArg \<Rightarrow> string option \<Rightarrow> schema_p0 \<Rightarrow> schema_p0" where
  "isSameOrAfter_method_p0 date precision =
     addRule \<lparr>rule_name = ''isSameOrAfter'', arg_date = date, arg_precision = precision\<rparr>"

section \<open>The host's validation of one value\<close>

text \<open>
  Modelled from the spec: the validation framework that calls the extension, which is not
  part of this repository. It evaluates a rule by the \<^verbatim>\<open>validate\<close> that the \<^verbatim>\<open>rules\<close>
  object holds under the rule's name, on the rule's arguments with a reference resolved
  ("Resolve date: if given as a reference, resolve against context").
\<close>

definition applyRule ::
  "(string \<times> (store \<Rightarrow> jsval \<Rightarrow> jsval \<Rightarrow> string option \<Rightarrow> outcome)) list \<Rightarrow>
   (string \<Rightarrow> jsval) \<Rightarrow> store \<Rightarrow> jsval \<Rightarrow> rule \<Rightarrow> outcome" where
  "applyRule table res st v r =
     (case map_of table (rule_name r) of
        None \<Rightarrow> Throws
      | Some f \<Rightarrow> f st v (resolveArg res (arg_date r)) (arg_precision r))"

text \<open>
  Modelled from the spec: "for each configured rule, in declaration order ...
  short-circuiting on first failure (subsequent rules are not evaluated once one fails)".
\<close>

fun runRules ::
  "(string \<times> (store \<Rightarrow> jsval \<Rightarrow> jsval \<Rightarrow> string option \<Rightarrow> outcome)) list \<Rightarrow>
   (string \<Rightarrow> jsval) \<Rightarrow> store \<Rightarrow> jsval \<Rightarrow> rule list \<Rightarrow> outcome" where
  "runRules table res st v [] = Returns v"
| "runRules table res st v (r # rs) =
     (case applyRule table res st v r of
        Returns v' \<Rightarrow> runRules table res st v' rs
      | out \<Rightarrow> out)"

text \<open>
  Modelled from the spec: the pipeline of one value: the coercion call, whose value
  replaces the input when it returns one; the validation call, whose error stops the
  pipeline; then the rules.
\<close>

definition pipeline ::
  "(string \<times> (store \<Rightarrow> jsval \<Rightarrow> jsval \<Rightarrow> string option \<Rightarrow> outcome)) list \<Rightarrow>
   (string \<Rightarrow> jsval) \<Rightarrow> rule list \<Rightarrow> jsval \<Rightarrow> outcome \<times> store \<Rightarrow> outcome" where
  "pipeline table res rs input c =
     (case c of (co, st') \<Rightarrow>
        (case co of
           Throws \<Rightarrow> Throws
         | _ \<Rightarrow>
             (let v = (case co of ReturnsValue v' \<Rightarrow> v' | _ \<Rightarrow> input)
              in case validate st' v of
                   ReturnsErrors v' e \<Rightarrow> ReturnsErrors v' e
                 | Throws \<Rightarrow> Throws
                 | _ \<Rightarrow> runRules table res st' v rs)))"

text \<open>
  Modelled from the spec: the framework's validation of one value against a schema of
  \<^verbatim>\<open>index.js\<close>: the pipeline on the functions of that file.
\<close>

definition joi_validate_index ::
  "moment_env \<Rightarrow> schema_index helpers \<Rightarrow> store \<Rightarrow> jsval \<Rightarrow> outcome" where
  "joi_validate_index E H st input =
     pipeline (rules_index E) (resolve H) (rules (schema H)) input (coerce_index E H st input)"

text \<open>
  Modelled from the spec: the framework's validation of one value against a schema of
  \<^verbatim>\<open>part_000\<close>: the pipeline on the functions of that file.
\<close>

definition joi_validate_p0 ::
  "moment_env \<Rightarrow> schema_p0 helpers \<Rightarrow> store \<Rightarrow> jsval \<Rightarrow> outcome" where
  "joi_validate_p0 E H st input =
     pipeline (rules_p0 E) (resolve H) (rules (schema H)) input (coerce_p0 E H st input)"

section \<open>An environment for examples\<close>

text \<open>
  A library environment to run the definitions on: a process whose local timezone is UTC,
  a parser that reads the ISO-8601 calendar date \<^verbatim>\<open>YYYY-MM-DD\<close> and takes every other
  input as unparseable, a clock that stands at 1700000000000, and a database of three
  zones of fixed offset. It is used in the witnesses and the counterexamples only.
\<close>

fun digits :: "string \<Rightarrow> nat \<Rightarrow> nat option" where
  "digits [] acc = Some acc"
| "digits (c # cs) acc =
     (let n = (of_char c :: nat)
      in if 48 \<le> n \<and> n \<le> 57 then digits cs (10 * acc + (n - 48)) else None)"

definition invalidMoment :: moment where
  "invalidMoment = \<lparr>isValid = False, valueOf = 0, utcOffset = 0, tzName = None\<rparr>"

definition utcMoment :: "int \<Rightarrow> moment" where
  "utcMoment t = \<lparr>isValid = True, valueOf = t, utcOffset = 0, tzName = None\<rparr>"

definition isoDate :: "string \<Rightarrow> moment" where
  "isoDate s =
     (if length s = 10 \<and> s ! 4 = CHR ''-'' \<and> s ! 7 = CHR ''-'' then
        (case (digits (take 4 s) 0, digits (take 2 (drop 5 s)) 0, digits (drop 8 s) 0) of
           (Some y, Some m, Some d) \<Rightarrow>
             if 1 \<le> m \<and> m \<le> 12 \<and> 1 \<le> d \<and> d \<le> monthLengths (int y) ! (m - 1)
             then utcMoment (utcStartOfDate (int y) (m - 1) (int d))
             else invalidMoment
         | _ \<Rightarrow> invalidMoment)
      else invalidMoment)"

definition sample_env :: moment_env where
  "sample_env =
     \<lparr>iso_8601 = (\<lambda>v. case v of JStr s \<Rightarrow> isoDate s | _ \<Rightarrow> invalidMoment),
      createLocal =
        (\<lambda>v. case v of
           JStr s \<Rightarrow> isoDate s
         | JNum n \<Rightarrow> utcMoment n
         | JUndefined \<Rightarrow> utcMoment 1700000000000
         | _ \<Rightarrow> invalidMoment),
      zoneOffset =
        (\<lambda>z. if z = ''UTC'' then Some 0
             else if z = ''Etc/GMT-1'' then Some 60
             else if z = ''Etc/GMT+5'' then Some (- 300)
             else None)\<rparr>"

text \<open>
  An empty store; the schema of each file as \<^verbatim>\<open>Joi.moment()\<close> builds it, with no flag
  set and no rule; and helpers around a schema: no reference resolves, and the caller gave
  an empty context.
\<close>

definition empty_store :: store where
  "empty_store = \<lparr>obj = (\<lambda>a. invalidMoment), next_addr = 0\<rparr>"

definition any_index :: schema_index where
  "any_index =
     \<lparr>flag_tz = None, flag_startOf = None, flag_endOf = None, rules = [],
      flag_max = JUndefined, flag_min = JUndefined\<rparr>"

definition any_p0 :: schema_p0 where
  "any_p0 =
     \<lparr>flag_tz = None, flag_startOf = None, flag_endOf = None, rules = [],
      flag_maxDate = Lit JUndefined, flag_minDate = Lit JUndefined\<rparr>"

definition helpers_of :: "'s \<Rightarrow> 's helpers" where
  "helpers_of sch =
     \<lparr>schema = sch, resolve = (\<lambda>k. JUndefined), prefs_context = Some \<lparr>timezone = None\<rparr>\<rparr>"

section \<open>Notions used in the statements\<close>

text \<open>
  What the block "Start of period", "End of period" does to the object it is called on: the
  composition of the two calls that are made.
\<close>

definition rounded :: "string option \<Rightarrow> string option \<Rightarrow> moment \<Rightarrow> moment" where
  "rounded sf ef m =
     (let m1 = (case flagged sf of Some u \<Rightarrow> startOf u m | None \<Rightarrow> m)
      in case flagged ef of Some u \<Rightarrow> endOf u m1 | None \<Rightarrow> m1)"

text \<open>
  The calendar day, as a day number, on which the instant \<open>t\<close> falls in the display
  timezone of the timestamp \<open>m\<close>.
\<close>

definition dayIn :: "moment \<Rightarrow> int \<Rightarrow> int" where
  "dayIn m t = (t + utcOffset m * 60000) div 86400000"

text \<open>
  Objects for the examples: a store of three timestamps in UTC, 2024-01-01 10:00 at
  address 0, 2024-01-01 00:00 at address 1 and 2024-06-01 00:00 at address 2; a scope in
  which the reference \<^verbatim>\<open>from\<close> resolves to the second; and schemas with bounds, with a
  start and an end of period, and with a timezone.
\<close>

definition sample_store :: store where
  "sample_store =
     \<lparr>obj = (\<lambda>a. if a = 0 then utcMoment 1704103200000
                else if a = 1 then utcMoment 1704067200000
                else if a = 2 then utcMoment 1717200000000
                else invalidMoment),
      next_addr = 3\<rparr>"

definition sample_scope :: "string \<Rightarrow> jsval" where
  "sample_scope k = (if k = ''from'' then JMoment 1 else JUndefined)"

definition bounded_index :: schema_index where
  "bounded_index = any_index\<lparr>flag_max := JMoment 2, flag_min := JMoment 1\<rparr>"

definition bounded_p0 :: schema_p0 where
  "bounded_p0 = any_p0\<lparr>flag_maxDate := Lit (JMoment 2), flag_minDate := Ref ''from''\<rparr>"

definition rounding_index :: schema_index where
  "rounding_index = any_index\<lparr>flag_startOf := Some ''month'', flag_endOf := Some ''day''\<rparr>"

definition rounding_p0 :: schema_p0 where
  "rounding_p0 = any_p0\<lparr>flag_startOf := Some ''month'', flag_endOf := Some ''day''\<rparr>"

definition zoned_index :: schema_index where
  "zoned_index = any_index\<lparr>flag_tz := Some ''Etc/GMT-1''\<rparr>"

definition zoned_context :: "schema_p0 helpers" where
  "zoned_context = (helpers_of any_p0)\<lparr>prefs_context := Some \<lparr>timezone = Some ''Etc/GMT-1''\<rparr>\<rparr>"

definition day_in_zone :: schema_p0 where
  "day_in_zone = any_p0\<lparr>flag_tz := Some ''Etc/GMT-1'', flag_startOf := Some ''day''\<rparr>"

section \<open>Properties of the calendar\<close>

lemma daysBeforeYear_mono: "y \<le> z \<Longrightarrow> daysBeforeYear y \<le> daysBeforeYear z"
proof (induction z rule: int_ge_induct)
  case base
  show ?case by simp
next
  case (step i)
  then show ?case using daysBeforeYear_less_next [of i] by simp
qed

lemma daysBeforeYear_strict_mono: "y < z \<Longrightarrow> daysBeforeYear y < daysBeforeYear z"
  using daysBeforeYear_mono [of "y + 1" z] daysBeforeYear_less_next [of y] by simp

lemma yearDown_le: "daysBeforeYear (yearDown d y) \<le> d"
proof (induction d y rule: yearDown.induct)
  case (1 d y)
  show ?case
  proof (cases "d < daysBeforeYear y")
    case True
    with "1.IH" show ?thesis by (subst yearDown.simps) simp
  next
    case False
    then show ?thesis by (subst yearDown.simps) simp
  qed
qed

lemma yearUp_bounds:
  "daysBeforeYear y \<le> d \<Longrightarrow>
   daysBeforeYear (yearUp d y) \<le> d \<and> d < daysBeforeYear (yearUp d y + 1)"
proof (induction d y rule: yearUp.induct)
  case (1 d y)
  show ?case
  proof (cases "daysBeforeYear (y + 1) \<le> d")
    case True
    with "1.IH" show ?thesis by (subst (1 2) yearUp.simps) simp
  next
    case False
    with "1.prems" show ?thesis by (subst (1 2) yearUp.simps) simp
  qed
qed

lemma yearOfDay_bounds:
  "daysBeforeYear (yearOfDay d) \<le> d \<and> d < daysBeforeYear (yearOfDay d + 1)"
  unfolding yearOfDay_def by (rule yearUp_bounds) (rule yearDown_le)

lemma yearOfDay_unique:
  assumes "daysBeforeYear y \<le> d" and "d < daysBeforeYear (y + 1)"
  shows "yearOfDay d = y"
proof (rule ccontr)
  assume ne: "yearOfDay d \<noteq> y"
  note b = yearOfDay_bounds [of d]
  show False
  proof (cases "yearOfDay d < y")
    case True
    then have "daysBeforeYear (yearOfDay d + 1) \<le> daysBeforeYear y"
      by (intro daysBeforeYear_mono) simp
    with b assms show False by simp
  next
    case False
    with ne have "daysBeforeYear (y + 1) \<le> daysBeforeYear (yearOfDay d)"
      by (intro daysBeforeYear_mono) simp
    with b assms show False by simp
  qed
qed


lemma splitMonths_sum:
  "splitMonths ls r = (m, r') \<Longrightarrow> sum_list (take m ls) + r' = r"
proof (induction ls arbitrary: r m r')
  case Nil
  then show ?case by simp
next
  case (Cons l ls)
  show ?case
  proof (cases "r < l")
    case True
    with Cons.prems show ?thesis by simp
  next
    case False
    obtain m0 r0 where s: "splitMonths ls (r - l) = (m0, r0)" by force
    with Cons.prems False have "m = Suc m0" "r' = r0" by simp_all
    with Cons.IH [OF s] False show ?thesis by simp
  qed
qed

lemma splitMonths_bound:
  "r < sum_list ls \<Longrightarrow> splitMonths ls r = (m, r') \<Longrightarrow> m < length ls \<and> r' < ls ! m"
proof (induction ls arbitrary: r m r')
  case Nil
  then show ?case by simp
next
  case (Cons l ls)
  show ?case
  proof (cases "r < l")
    case True
    with Cons.prems show ?thesis by simp
  next
    case False
    obtain m0 r0 where s: "splitMonths ls (r - l) = (m0, r0)" by force
    with Cons.prems False have e: "m = Suc m0" "r' = r0" by simp_all
    from Cons.prems False have "r - l < sum_list ls" by simp
    from Cons.IH [OF this s] e show ?thesis by simp
  qed
qed

lemma splitMonths_start:
  "m < length ls \<Longrightarrow> \<forall>l \<in> set ls. 0 < l \<Longrightarrow>
   splitMonths ls (sum_list (take m ls)) = (m, 0)"
proof (induction ls arbitrary: m)
  case Nil
  then show ?case by simp
next
  case (Cons l ls)
  show ?case
  proof (cases m)
    case 0
    with Cons.prems show ?thesis by simp
  next
    case (Suc k)
    with Cons.prems have "splitMonths ls (sum_list (take k ls)) = (k, 0)"
      by (intro Cons.IH) simp_all
    with Suc show ?thesis by simp
  qed
qed

lemma take_sum_less:
  "m < length ls \<Longrightarrow> \<forall>l \<in> set ls. 0 < l \<Longrightarrow> sum_list (take m ls) < sum_list (ls :: nat list)"
proof (induction ls arbitrary: m)
  case Nil
  then show ?case by simp
next
  case (Cons l ls)
  show ?case
  proof (cases m)
    case 0
    with Cons.prems show ?thesis by simp
  next
    case (Suc k)
    with Cons.prems have "sum_list (take k ls) < sum_list ls"
      by (intro Cons.IH) simp_all
    with Suc show ?thesis by simp
  qed
qed

lemma monthLengths_sum: "int (sum_list (monthLengths y)) = daysInYear y"
  by (simp add: monthLengths_def daysInYear_def)

lemma monthLengths_length: "length (monthLengths y) = 12"
  by (simp add: monthLengths_def)

lemma monthLengths_pos: "\<forall>l \<in> set (monthLengths y). 0 < l"
  by (simp add: monthLengths_def)

lemma daysBeforeMonth_less: "m < 12 \<Longrightarrow> daysBeforeMonth y m < daysInYear y"
  using take_sum_less [of m "monthLengths y"] monthLengths_pos [of y]
  by (simp add: daysBeforeMonth_def monthLengths_length flip: monthLengths_sum)

lemma civil_roundtrip:
  assumes "civil d = (y, m, dd)"
  shows "utcStartOfDate y m dd = d * 86400000"
proof -
  obtain m0 r0 where s: "splitMonths (monthLengths (yearOfDay d)) (nat (d - daysBeforeYear (yearOfDay d))) = (m0, r0)"
    by force
  with assms have e: "y = yearOfDay d" "m = m0" "dd = int r0 + 1"
    by (simp_all add: civil_def Let_def)
  from splitMonths_sum [OF s] yearOfDay_bounds [of d]
  have "int (sum_list (take m0 (monthLengths (yearOfDay d)))) + int r0 = d - daysBeforeYear (yearOfDay d)"
    by linarith
  with e show ?thesis by (simp add: utcStartOfDate_def daysBeforeMonth_def)
qed

lemma civil_month_bound:
  assumes "civil d = (y, m, dd)"
  shows "m < 12"
proof -
  obtain m0 r0 where s: "splitMonths (monthLengths (yearOfDay d)) (nat (d - daysBeforeYear (yearOfDay d))) = (m0, r0)"
    by force
  with assms have e: "y = yearOfDay d" "m = m0"
    by (simp_all add: civil_def Let_def)
  have "d - daysBeforeYear (yearOfDay d) < daysInYear (yearOfDay d)"
    using yearOfDay_bounds [of d] by (simp add: daysBeforeYear_step)
  then have "nat (d - daysBeforeYear (yearOfDay d)) < sum_list (monthLengths (yearOfDay d))"
    using monthLengths_sum [of "yearOfDay d"] yearOfDay_bounds [of d] by linarith
  from splitMonths_bound [OF this s] e show ?thesis by (simp add: monthLengths_length)
qed

lemma civil_first_of_month:
  assumes "m < 12"
  shows "civil (daysBeforeYear y + daysBeforeMonth y m) = (y, m, 1)"
proof -
  let ?d = "daysBeforeYear y + daysBeforeMonth y m"
  have nn: "0 \<le> daysBeforeMonth y m" by (simp add: daysBeforeMonth_def)
  have "yearOfDay ?d = y"
    using daysBeforeMonth_less [OF assms, of y] nn
    by (intro yearOfDay_unique) (simp_all add: daysBeforeYear_step)
  moreover have "splitMonths (monthLengths y) (sum_list (take m (monthLengths y))) = (m, 0)"
    using assms by (intro splitMonths_start) (simp_all add: monthLengths_length monthLengths_pos)
  ultimately show ?thesis by (simp add: civil_def daysBeforeMonth_def)
qed

lemma utcStartOfDate_first_div:
  "utcStartOfDate y m 1 div 86400000 = daysBeforeYear y + daysBeforeMonth y m"
  by (simp add: utcStartOfDate_def)


lemma utcStartOfDate_shift:
  "utcStartOfDate y m (dd + k) = utcStartOfDate y m dd + k * 86400000"
  by (simp add: utcStartOfDate_def algebra_simps)

lemma startOfLocal_Day: "startOfLocal Day t = t div 86400000 * 86400000"
proof -
  obtain y m dd where c: "civil (t div 86400000) = (y, m, dd)"
    by (metis prod_cases3)
  from c civil_roundtrip [OF c] show ?thesis by (simp add: startOfLocal_def)
qed

lemma startOfLocal_Week:
  "startOfLocal Week t = (t div 86400000 - weekday (t div 86400000)) * 86400000"
proof -
  obtain y m dd where c: "civil (t div 86400000) = (y, m, dd)"
    by (metis prod_cases3)
  have "utcStartOfDate y m (dd + (- weekday (t div 86400000)))
        = t div 86400000 * 86400000 + (- weekday (t div 86400000)) * 86400000"
    unfolding utcStartOfDate_shift civil_roundtrip [OF c] ..
  then have "utcStartOfDate y m (dd - weekday (t div 86400000))
        = (t div 86400000 - weekday (t div 86400000)) * 86400000"
    by (simp add: left_diff_distrib)
  with c show ?thesis by (simp add: startOfLocal_def Let_def)
qed

lemma weekday_start: "weekday (d - weekday d) = 0"
  unfolding weekday_def by presburger

lemma mod_trunc: "0 < k \<Longrightarrow> ((t::int) - t mod k) mod k = 0"
  by (simp add: mod_diff_left_eq [symmetric])

lemma startOfLocal_Hour: "startOfLocal Hour t = t - t mod 3600000"
  by (simp add: startOfLocal_def split: prod.splits)

lemma startOfLocal_Minute: "startOfLocal Minute t = t - t mod 60000"
  by (simp add: startOfLocal_def split: prod.splits)

lemma startOfLocal_Second: "startOfLocal Second t = t - t mod 1000"
  by (simp add: startOfLocal_def split: prod.splits)

lemma startOfLocal_Millisecond: "startOfLocal Millisecond t = t"
  by (simp add: startOfLocal_def split: prod.splits)

lemma startOfLocal_idem: "startOfLocal u (startOfLocal u t) = startOfLocal u t"
proof -
  obtain y m dd where c: "civil (t div 86400000) = (y, m, dd)"
    by (metis prod_cases3)
  note mb = civil_month_bound [OF c]
  show ?thesis
  proof (cases u)
    case Year
    have "civil (daysBeforeYear y + daysBeforeMonth y 0) = (y, 0, 1)"
      by (rule civil_first_of_month) simp
    with c Year show ?thesis
      by (simp add: startOfLocal_def utcStartOfDate_first_div)
  next
    case Quarter
    have "civil (daysBeforeYear y + daysBeforeMonth y (m - m mod 3)) = (y, m - m mod 3, 1)"
      using mb by (intro civil_first_of_month) simp
    with c Quarter show ?thesis
      by (simp add: startOfLocal_def utcStartOfDate_first_div)
  next
    case Month
    have "civil (daysBeforeYear y + daysBeforeMonth y m) = (y, m, 1)"
      using mb by (rule civil_first_of_month)
    with c Month show ?thesis
      by (simp add: startOfLocal_def utcStartOfDate_first_div)
  next
    case Week
    then show ?thesis by (simp add: startOfLocal_Week weekday_start)
  next
    case Day
    then show ?thesis by (simp add: startOfLocal_Day)
  next
    case Hour
    then show ?thesis by (simp add: startOfLocal_Hour mod_trunc)
  next
    case Minute
    then show ?thesis by (simp add: startOfLocal_Minute mod_trunc)
  next
    case Second
    then show ?thesis by (simp add: startOfLocal_Second mod_trunc)
  next
    case Millisecond
    then show ?thesis by (simp add: startOfLocal_Millisecond)
  qed
qed

lemma startOfUnit_idem: "startOfUnit u (startOfUnit u m) = startOfUnit u m"
  by (simp add: startOfUnit_def localTime_def startOfLocal_idem)

lemma endOfLocal_Day: "endOfLocal Day t = t div 86400000 * 86400000 + 86400000 - 1"
proof -
  obtain y m dd where c: "civil (t div 86400000) = (y, m, dd)"
    by (metis prod_cases3)
  have "utcStartOfDate y m (dd + 1) = t div 86400000 * 86400000 + 1 * 86400000"
    unfolding utcStartOfDate_shift civil_roundtrip [OF c] ..
  with c show ?thesis by (simp add: endOfLocal_def)
qed

lemma day_le_iff: "(q * 86400000 \<le> (n::int)) = (q \<le> n div 86400000)"
  by linarith

lemma day_less_iff: "((n::int) < q * 86400000) = (n div 86400000 < q)"
  by linarith

lemma precision_day: "precisionUnit (Some ''day'') = Day"
  by (simp add: precisionUnit_def normalizeUnits_def)

lemma isSameOrBefore_day:
  "isSameOrBefore y x (Some ''day'') =
     (isValid y \<and> isValid x \<and> dayIn y (valueOf y) \<le> dayIn y (valueOf x))"
  unfolding isSameOrBefore_def isSame_def isBefore_def precision_day dayIn_def
  by (auto simp: startOfUnit_def endOfUnit_def localTime_def startOfLocal_Day endOfLocal_Day
      simp flip: day_le_iff)

lemma isBefore_day:
  "isBefore y x (Some ''day'') =
     (isValid y \<and> isValid x \<and> dayIn y (valueOf y) < dayIn y (valueOf x))"
  unfolding isBefore_def precision_day dayIn_def
  by (auto simp: endOfUnit_def localTime_def endOfLocal_Day)

lemma isAfter_day:
  "isAfter y x (Some ''day'') =
     (isValid y \<and> isValid x \<and> dayIn y (valueOf x) < dayIn y (valueOf y))"
  unfolding isAfter_def precision_day dayIn_def
  by (auto simp: startOfUnit_def localTime_def startOfLocal_Day simp flip: day_less_iff)

lemma dayIn_mono: "s \<le> t \<Longrightarrow> dayIn m s \<le> dayIn m t"
  unfolding dayIn_def by (intro zdiv_mono1) simp_all

lemma isAfter_day_not:
  "valueOf y \<le> valueOf x \<Longrightarrow> \<not> isAfter y x (Some ''day'')"
  using dayIn_mono [of "valueOf y" "valueOf x" y] by (simp add: isAfter_day)

section \<open>Properties of the library operations and of the store\<close>

lemma valueOf_tz: "valueOf (tz E z m) = valueOf m"
  by (simp add: tz_def split: option.splits)

lemma isValid_tz: "isValid (tz E z m) = isValid m"
  by (simp add: tz_def split: option.splits)

lemma zone_tz:
  "zoneOffset E z = Some off \<Longrightarrow> tzName (tz E z m) = Some z \<and> utcOffset (tz E z m) = off"
  by (simp add: tz_def)

lemma zone_startOf: "tzName (startOf u m) = tzName m \<and> utcOffset (startOf u m) = utcOffset m"
  by (simp add: startOf_def startOfUnit_def split: option.splits)

lemma zone_endOf: "tzName (endOf u m) = tzName m \<and> utcOffset (endOf u m) = utcOffset m"
  by (simp add: endOf_def endOfUnit_def split: option.splits)

lemma zone_rounded:
  "tzName (rounded sf ef m) = tzName m \<and> utcOffset (rounded sf ef m) = utcOffset m"
  by (simp add: rounded_def Let_def zone_startOf zone_endOf split: option.splits)

lemma isValid_startOf: "isValid (startOf u m) = isValid m"
  by (simp add: startOf_def startOfUnit_def split: option.splits)

lemma isValid_endOf: "isValid (endOf u m) = isValid m"
  by (simp add: endOf_def endOfUnit_def split: option.splits)

lemma isValid_rounded: "isValid (rounded sf ef m) = isValid m"
  by (simp add: rounded_def Let_def isValid_startOf isValid_endOf split: option.splits)

lemma rounded_none: "flagged sf = None \<Longrightarrow> flagged ef = None \<Longrightarrow> rounded sf ef m = m"
  by (simp add: rounded_def)

lemma rounded_both:
  "flagged sf = Some su \<Longrightarrow> flagged ef = Some eu \<Longrightarrow> rounded sf ef m = endOf eu (startOf su m)"
  by (simp add: rounded_def)

lemma obj_mutate: "obj (mutate a f st) b = (if b = a then f (obj st a) else obj st b)"
  by (simp add: mutate_def)

lemma next_addr_mutate: "next_addr (mutate a f st) = next_addr st"
  by (simp add: mutate_def)

lemma applyPeriod_rounded: "applyPeriod sf ef a st = mutate a (rounded sf ef) st"
  by (cases "flagged sf"; cases "flagged ef")
     (simp_all add: applyPeriod_def rounded_def mutate_def)

lemma isValid_applyTimezone_index:
  "isValid (obj (applyTimezone_index E tzf a st) a) = isValid (obj st a)"
  by (simp add: applyTimezone_index_def obj_mutate isValid_tz split: option.splits)

lemma isValid_applyTimezone_p0:
  "applyTimezone_p0 E tzf ctx a st = Some st2 \<Longrightarrow> isValid (obj st2 a) = isValid (obj st a)"
  by (auto simp: applyTimezone_p0_def obj_mutate isValid_tz split: option.splits)

lemma applyTimezone_p0_chosen:
  assumes "flagged tzf = Some z \<or>
           flagged tzf = None \<and> ctx = Some c \<and> flagged (timezone c) = Some z"
  shows "applyTimezone_p0 E tzf ctx a st = Some (mutate a (tz E z) st)"
  using assms by (auto simp: applyTimezone_p0_def)

lemma applyTimezone_p0_frame:
  assumes "applyTimezone_p0 E tzf ctx a st = Some st2"
  shows "next_addr st2 = next_addr st \<and> (\<forall>b. b \<noteq> a \<longrightarrow> obj st2 b = obj st b) \<and>
         (obj st2 a = obj st a \<or> (\<exists>z. obj st2 a = tz E z (obj st a)))"
  using assms
  by (auto simp: applyTimezone_p0_def mutate_def split: option.splits)

section \<open>coerce on a valid timestamp\<close>

text \<open>
  Past the two guards, \<^verbatim>\<open>coerce\<close> changes one object, the one \<^verbatim>\<open>value\<close> refers to, and
  returns what the two bound checks leave in \<^verbatim>\<open>value\<close>.
\<close>

lemma coerce_index_valid:
  assumes "truthy v" and "convert_index E st v = (a, st1)" and "isValid (obj st1 a)"
  shows "coerce_index E H st v =
           (clamp E (mutate a (rounded (flag_startOf (schema H)) (flag_endOf (schema H)))
                       (applyTimezone_index E (flag_tz (schema H)) a st1))
              a (flag_min (schema H)) (flag_max (schema H)),
            mutate a (rounded (flag_startOf (schema H)) (flag_endOf (schema H)))
              (applyTimezone_index E (flag_tz (schema H)) a st1))"
  using assms by (simp add: coerce_index_def Let_def applyPeriod_rounded)

lemma coerce_p0_valid:
  assumes "truthy v" and "convert_p0 E st v = (a, st1)" and "isValid (obj st1 a)"
    and "applyTimezone_p0 E (flag_tz (schema H)) (prefs_context H) a st1 = Some st2"
  shows "coerce_p0 E H st v =
           (clamp E (mutate a (rounded (flag_startOf (schema H)) (flag_endOf (schema H))) st2)
              a (resolveArg (resolve H) (flag_minDate (schema H)))
                (resolveArg (resolve H) (flag_maxDate (schema H))),
            mutate a (rounded (flag_startOf (schema H)) (flag_endOf (schema H))) st2)"
  using assms by (simp add: coerce_p0_def Let_def applyPeriod_rounded)

lemma clamp_kept:
  assumes "\<not> (truthy mn \<and> isBefore (obj st a) (toMoment E st mn) None)"
    and "\<not> (truthy mx \<and> isAfter (obj st a) (toMoment E st mx) None)"
  shows "clamp E st a mn mx = ReturnsValue (JMoment a)"
  using assms by (auto simp: clamp_def)

lemma clamp_bounds:
  assumes "isValid (obj st a)" and "isValid (obj st b)" and "isValid (obj st c)"
    and "valueOf (obj st b) \<le> valueOf (obj st c)"
  shows "\<exists>r. clamp E st a (JMoment b) (JMoment c) = ReturnsValue (JMoment r) \<and>
           valueOf (obj st b) \<le> valueOf (obj st r) \<and>
           valueOf (obj st r) \<le> valueOf (obj st c) \<and>
           (valueOf (obj st b) \<le> valueOf (obj st a) \<and>
            valueOf (obj st a) \<le> valueOf (obj st c) \<longrightarrow> r = a)"
  using assms
  by (auto simp: clamp_def isBefore_def isAfter_def precisionUnit_def toMoment_def)

lemma coerce_index_bounds:
  assumes "truthy v" and "convert_index E st v = (a, st1)" and "isValid (obj st1 a)"
    and "flag_min (schema H) = JMoment b" and "flag_max (schema H) = JMoment c"
    and "coerce_index E H st v = (out, st')"
    and "isValid (obj st' b)" and "isValid (obj st' c)"
    and "valueOf (obj st' b) \<le> valueOf (obj st' c)"
  shows "isValid (obj st' a) \<and>
         (\<exists>r. out = ReturnsValue (JMoment r) \<and>
           valueOf (obj st' b) \<le> valueOf (obj st' r) \<and>
           valueOf (obj st' r) \<le> valueOf (obj st' c) \<and>
           (valueOf (obj st' b) \<le> valueOf (obj st' a) \<and>
            valueOf (obj st' a) \<le> valueOf (obj st' c) \<longrightarrow> r = a))"
proof -
  note e = coerce_index_valid [OF assms(1-3), of H]
  from e assms(6) have
    st': "st' = mutate a (rounded (flag_startOf (schema H)) (flag_endOf (schema H)))
                  (applyTimezone_index E (flag_tz (schema H)) a st1)"
    and out: "out = clamp E st' a (JMoment b) (JMoment c)"
    by (simp_all add: assms(4,5))
  have va: "isValid (obj st' a)"
    by (simp add: st' obj_mutate isValid_rounded isValid_applyTimezone_index assms(3))
  from clamp_bounds [OF va assms(7-9), of E] va out show ?thesis by simp
qed

lemma coerce_p0_bounds:
  assumes "truthy v" and "convert_p0 E st v = (a, st1)" and "isValid (obj st1 a)"
    and "applyTimezone_p0 E (flag_tz (schema H)) (prefs_context H) a st1 = Some st2"
    and "resolveArg (resolve H) (flag_minDate (schema H)) = JMoment b"
    and "resolveArg (resolve H) (flag_maxDate (schema H)) = JMoment c"
    and "coerce_p0 E H st v = (out, st')"
    and "isValid (obj st' b)" and "isValid (obj st' c)"
    and "valueOf (obj st' b) \<le> valueOf (obj st' c)"
  shows "isValid (obj st' a) \<and>
         (\<exists>r. out = ReturnsValue (JMoment r) \<and>
           valueOf (obj st' b) \<le> valueOf (obj st' r) \<and>
           valueOf (obj st' r) \<le> valueOf (obj st' c) \<and>
           (valueOf (obj st' b) \<le> valueOf (obj st' a) \<and>
            valueOf (obj st' a) \<le> valueOf (obj st' c) \<longrightarrow> r = a))"
proof -
  note e = coerce_p0_valid [OF assms(1-4)]
  from e assms(7) have
    st': "st' = mutate a (rounded (flag_startOf (schema H)) (flag_endOf (schema H))) st2"
    and out: "out = clamp E st' a (JMoment b) (JMoment c)"
    by (simp_all add: assms(5,6))
  have va: "isValid (obj st' a)"
    by (simp add: st' obj_mutate isValid_rounded isValid_applyTimezone_p0 [OF assms(4)] assms(3))
  from clamp_bounds [OF va assms(8-10), of E] va out show ?thesis by simp
qed

lemma timezone_p0:
  assumes "truthy v" and "zoneOffset E z = Some off"
    and "convert_p0 E st v = (a, st1)" and "isValid (obj st1 a)"
    and "flagged (flag_tz (schema H)) = Some z \<or>
         flagged (flag_tz (schema H)) = None \<and> prefs_context H = Some c \<and>
         flagged (timezone c) = Some z"
  shows "\<exists>out st'. coerce_p0 E H st v = (out, st') \<and>
           tzName (obj st' a) = Some z \<and> utcOffset (obj st' a) = off \<and>
           (flagged (flag_startOf (schema H)) = None \<and> flagged (flag_endOf (schema H)) = None
              \<longrightarrow> valueOf (obj st' a) = valueOf (obj st1 a))"
  using coerce_p0_valid [OF assms(1) assms(3) assms(4) applyTimezone_p0_chosen [OF assms(5)]]
    zone_tz [OF assms(2)]
  by (simp add: obj_mutate zone_rounded rounded_none valueOf_tz)

lemma timezone_index:
  assumes "truthy v" and "zoneOffset E z = Some off"
    and "convert_index E st v = (a, st1)" and "isValid (obj st1 a)"
  shows "\<exists>out st'. coerce_index E H st v = (out, st') \<and>
           (flagged (flag_tz (schema H)) = Some z
              \<longrightarrow> tzName (obj st' a) = Some z \<and> utcOffset (obj st' a) = off) \<and>
           (flagged (flag_tz (schema H)) = None
              \<longrightarrow> tzName (obj st' a) = tzName (obj st1 a) \<and>
                  utcOffset (obj st' a) = utcOffset (obj st1 a)) \<and>
           (flagged (flag_startOf (schema H)) = None \<and> flagged (flag_endOf (schema H)) = None
              \<longrightarrow> valueOf (obj st' a) = valueOf (obj st1 a))"
  using coerce_index_valid [OF assms(1) assms(3) assms(4)] zone_tz [OF assms(2)]
  by (cases "flagged (flag_tz (schema H))")
     (simp_all add: applyTimezone_index_def obj_mutate zone_rounded rounded_none valueOf_tz)

lemma single_rule: "runRules table res st v [r] = applyRule table res st v r"
  by (simp split: outcome.splits)

section \<open>The claims\<close>

text \<open>
  C1. The claim: for every non-empty string that fails ISO-8601 parsing, \<^verbatim>\<open>coerce\<close>
  returns an invalid timestamp, and \<^verbatim>\<open>validate\<close>, applied to that value, returns the
  original value with exactly one error \<^verbatim>\<open>date.iso\<close>.

  The code does otherwise. \<^verbatim>\<open>coerce\<close> of either file leaves at
  \<^verbatim>\<open>if (!value.isValid()) { return; }\<close> and returns nothing, so the value that reaches
  \<^verbatim>\<open>validate\<close> is the string itself; the string is truthy and has no method
  \<^verbatim>\<open>isValid\<close>, so \<^verbatim>\<open>!value.isValid()\<close> throws before the branch that reports
  \<^verbatim>\<open>date.iso\<close> is reached. The theorem states this for every such string, every
  schema and every store; the witness runs it on \<^verbatim>\<open>"not-a-date"\<close>.
\<close>

theorem unparseable_string_throws:
  assumes "s \<noteq> []" and "\<not> isValid (iso_8601 E (JStr s))"
  shows "fst (coerce_index E H st (JStr s)) = ReturnsNothing \<and>
         fst (coerce_p0 E H' st (JStr s)) = ReturnsNothing \<and>
         validate st' (JStr s) = Throws \<and>
         joi_validate_index E H st (JStr s) = Throws \<and>
         joi_validate_p0 E H' st (JStr s) = Throws"
  using assms
  by (simp add: coerce_index_def coerce_p0_def convert_index_def convert_p0_def alloc_def
      validate_def joi_validate_index_def joi_validate_p0_def pipeline_def)

theorem unparseable_string_throws_witness:
  "''not-a-date'' \<noteq> [] \<and>
   \<not> isValid (iso_8601 sample_env (JStr ''not-a-date'')) \<and>
   fst (coerce_index sample_env (helpers_of any_index) empty_store (JStr ''not-a-date''))
     = ReturnsNothing \<and>
   fst (coerce_p0 sample_env (helpers_of any_p0) empty_store (JStr ''not-a-date''))
     = ReturnsNothing \<and>
   validate empty_store (JStr ''not-a-date'') = Throws \<and>
   joi_validate_index sample_env (helpers_of any_index) empty_store (JStr ''not-a-date'')
     = Throws \<and>
   joi_validate_p0 sample_env (helpers_of any_p0) empty_store (JStr ''not-a-date'') = Throws"
proof -
  have h1: "''not-a-date'' \<noteq> []" by simp
  have h2: "\<not> isValid (iso_8601 sample_env (JStr ''not-a-date''))" by code_simp
  show ?thesis
    using h1 h2
      unparseable_string_throws
        [OF h1 h2, of "helpers_of any_index" empty_store "helpers_of any_p0" empty_store]
    by (simp only: simp_thms)
qed

text \<open>
  C2. The claim: a configured rule \<^verbatim>\<open>isSameOrBefore(X, "day")\<close> passes every valid
  timestamp Y on the same calendar day as X, whatever the time of day, and gives an error
  when Y is on a later calendar day.

  In \<^verbatim>\<open>index.js\<close> the method of \<^verbatim>\<open>isSameOrBefore\<close> adds the rule under the name
  \<^verbatim>\<open>'isBefore'\<close>, so the \<^verbatim>\<open>validate\<close> that runs is the one of \<^verbatim>\<open>isBefore\<close>: a
  timestamp Y on the same calendar day as X is rejected, with the error
  \<^verbatim>\<open>moment.isBefore\<close>. The theorem states this for all valid Y and X; the calendar days
  are those of the display timezone of Y, in which the library compares.
\<close>

theorem isSameOrBefore_index_rejects_same_day:
  assumes "isValid (obj st a)" and "isValid (obj st x)"
    and "dayIn (obj st a) (valueOf (obj st a)) = dayIn (obj st a) (valueOf (obj st x))"
  shows "runRules (rules_index E) res st (JMoment a)
           (rules (isSameOrBefore_method_index (Lit (JMoment x)) (Some ''day'') any_index))
         = ReturnsError (Report ''moment.isBefore'' (Some (Given (JMoment x), ''day'')))"
  using assms
  by (simp add: isSameOrBefore_method_index_def addRule_def any_index_def single_rule
      applyRule_def rules_index_def resolveArg_def isBefore_validate_index_def
      compare_validate_def dateMoment_def toMoment_def isBefore_day)

theorem isSameOrBefore_index_rejects_same_day_witness:
  "isValid (obj sample_store 0) \<and> isValid (obj sample_store 1) \<and>
   dayIn (obj sample_store 0) (valueOf (obj sample_store 0))
     = dayIn (obj sample_store 0) (valueOf (obj sample_store 1)) \<and>
   runRules (rules_index sample_env) sample_scope sample_store (JMoment 0)
     (rules (isSameOrBefore_method_index (Lit (JMoment 1)) (Some ''day'') any_index))
     = ReturnsError (Report ''moment.isBefore'' (Some (Given (JMoment 1), ''day'')))"
proof -
  have h1: "isValid (obj sample_store 0)" by code_simp
  have h2: "isValid (obj sample_store 1)" by code_simp
  have h3: "dayIn (obj sample_store 0) (valueOf (obj sample_store 0))
     = dayIn (obj sample_store 0) (valueOf (obj sample_store 1))" by code_simp
  from h1 h2 h3 isSameOrBefore_index_rejects_same_day [OF h1 h2 h3, of sample_env sample_scope]
  show ?thesis by (intro conjI)
qed

text \<open>
  In \<^verbatim>\<open>part_000\<close> the method adds the rule under its own name, and the rule does what
  C2 says: it returns Y when the day of Y is the day of X or an earlier one, and the error
  \<^verbatim>\<open>moment.isSameOrBefore\<close> when it is a later one.
\<close>

lemma isSameOrBefore_p0_day:
  assumes "isValid (obj st a)" and "isValid (obj st x)"
  shows "runRules (rules_p0 E) res st (JMoment a)
           (rules (isSameOrBefore_method_p0 (Lit (JMoment x)) (Some ''day'') any_p0))
         = (if dayIn (obj st a) (valueOf (obj st a)) \<le> dayIn (obj st a) (valueOf (obj st x))
            then Returns (JMoment a)
            else ReturnsError
              (Report ''moment.isSameOrBefore'' (Some (Given (JMoment x), ''day''))))"
  using assms
  by (simp add: isSameOrBefore_method_p0_def addRule_def any_p0_def single_rule
      applyRule_def rules_p0_def resolveArg_def isSameOrBefore_validate_p0_def
      guarded_validate_def compare_validate_def dateMoment_def toMoment_def
      isSameOrBefore_day)

text \<open>
  C3. With \<^verbatim>\<open>minDate\<close> and \<^verbatim>\<open>maxDate\<close> two valid timestamps \<open>b\<close> and \<open>c\<close>, the first
  not after the second, and a valid input, \<^verbatim>\<open>coerce\<close> returns a timestamp \<open>r\<close> within
  the bounds, and \<open>r\<close> is the input's own object \<open>a\<close> when that one is within the bounds
  already. The bounds and the input are read in the store as \<^verbatim>\<open>coerce\<close> leaves it, that
  is after the timezone and the period were applied to the input, which is when the code
  compares them. In \<^verbatim>\<open>part_000\<close> a bound may be given by a reference, and the timezone
  block must not throw.
\<close>

theorem coerce_within_bounds:
  assumes "truthy v"
  shows
    "(convert_index E st v = (a, st1) \<and> isValid (obj st1 a) \<and>
      flag_min (schema H) = JMoment b \<and> flag_max (schema H) = JMoment c \<and>
      coerce_index E H st v = (out, st') \<and>
      isValid (obj st' b) \<and> isValid (obj st' c) \<and>
      valueOf (obj st' b) \<le> valueOf (obj st' c) \<longrightarrow>
        isValid (obj st' a) \<and>
        (\<exists>r. out = ReturnsValue (JMoment r) \<and>
           valueOf (obj st' b) \<le> valueOf (obj st' r) \<and>
           valueOf (obj st' r) \<le> valueOf (obj st' c) \<and>
           (valueOf (obj st' b) \<le> valueOf (obj st' a) \<and>
            valueOf (obj st' a) \<le> valueOf (obj st' c) \<longrightarrow> r = a))) \<and>
     (convert_p0 E st v = (a0, st10) \<and> isValid (obj st10 a0) \<and>
      applyTimezone_p0 E (flag_tz (schema H0)) (prefs_context H0) a0 st10 = Some st20 \<and>
      resolveArg (resolve H0) (flag_minDate (schema H0)) = JMoment b0 \<and>
      resolveArg (resolve H0) (flag_maxDate (schema H0)) = JMoment c0 \<and>
      coerce_p0 E H0 st v = (out0, st0') \<and>
      isValid (obj st0' b0) \<and> isValid (obj st0' c0) \<and>
      valueOf (obj st0' b0) \<le> valueOf (obj st0' c0) \<longrightarrow>
        isValid (obj st0' a0) \<and>
        (\<exists>r. out0 = ReturnsValue (JMoment r) \<and>
           valueOf (obj st0' b0) \<le> valueOf (obj st0' r) \<and>
           valueOf (obj st0' r) \<le> valueOf (obj st0' c0) \<and>
           (valueOf (obj st0' b0) \<le> valueOf (obj st0' a0) \<and>
            valueOf (obj st0' a0) \<le> valueOf (obj st0' c0) \<longrightarrow> r = a0)))"
  using coerce_index_bounds [OF assms, of E st a st1 H b c out st']
    coerce_p0_bounds [OF assms, of E st a0 st10 H0 st20 b0 c0 out0 st0']
  by blast

theorem coerce_within_bounds_witness:
  "truthy (JMoment 0) \<and>
   fst (coerce_index sample_env (helpers_of bounded_index) sample_store (JMoment 0))
     = ReturnsValue (JMoment 3) \<and>
   (\<exists>r. fst (coerce_index sample_env (helpers_of bounded_index) sample_store (JMoment 0))
           = ReturnsValue (JMoment r) \<and>
        valueOf (obj (snd (coerce_index sample_env (helpers_of bounded_index) sample_store
                             (JMoment 0))) 1)
          \<le> valueOf (obj (snd (coerce_index sample_env (helpers_of bounded_index) sample_store
                             (JMoment 0))) r) \<and>
        valueOf (obj (snd (coerce_index sample_env (helpers_of bounded_index) sample_store
                             (JMoment 0))) r)
          \<le> valueOf (obj (snd (coerce_index sample_env (helpers_of bounded_index) sample_store
                             (JMoment 0))) 2)) \<and>
   fst (coerce_p0 sample_env
          ((helpers_of bounded_p0)\<lparr>resolve := sample_scope\<rparr>) sample_store (JMoment 0))
     = ReturnsValue (JMoment 0) \<and>
   (\<exists>r. fst (coerce_p0 sample_env
          ((helpers_of bounded_p0)\<lparr>resolve := sample_scope\<rparr>) sample_store (JMoment 0))
           = ReturnsValue (JMoment r) \<and>
        valueOf (obj (snd (coerce_p0 sample_env
          ((helpers_of bounded_p0)\<lparr>resolve := sample_scope\<rparr>) sample_store (JMoment 0))) 1)
          \<le> valueOf (obj (snd (coerce_p0 sample_env
          ((helpers_of bounded_p0)\<lparr>resolve := sample_scope\<rparr>) sample_store (JMoment 0))) r) \<and>
        valueOf (obj (snd (coerce_p0 sample_env
          ((helpers_of bounded_p0)\<lparr>resolve := sample_scope\<rparr>) sample_store (JMoment 0))) r)
          \<le> valueOf (obj (snd (coerce_p0 sample_env
          ((helpers_of bounded_p0)\<lparr>resolve := sample_scope\<rparr>) sample_store (JMoment 0))) 2))"
proof -
  let ?H = "helpers_of bounded_index"
  let ?c = "coerce_index sample_env ?H sample_store (JMoment 0)"
  let ?st1 = "snd (convert_index sample_env sample_store (JMoment 0))"
  let ?K = "(helpers_of bounded_p0)\<lparr>resolve := sample_scope\<rparr>"
  let ?d = "coerce_p0 sample_env ?K sample_store (JMoment 0)"
  have t: "truthy (JMoment 0)" by simp
  have a1: "convert_index sample_env sample_store (JMoment 0) = (3, ?st1)"
    by (simp add: convert_index_def alloc_def sample_store_def)
  have a2: "isValid (obj ?st1 3)" by code_simp
  have a3: "flag_min (schema ?H) = JMoment 1" by code_simp
  have a4: "flag_max (schema ?H) = JMoment 2" by code_simp
  have a5: "?c = (fst ?c, snd ?c)" by simp
  have a6: "isValid (obj (snd ?c) 1)" by code_simp
  have a7: "isValid (obj (snd ?c) 2)" by code_simp
  have a8: "valueOf (obj (snd ?c) 1) \<le> valueOf (obj (snd ?c) 2)" by code_simp
  have b1: "convert_p0 sample_env sample_store (JMoment 0) = (0, sample_store)"
    by (simp add: convert_p0_def)
  have b2: "isValid (obj sample_store 0)" by code_simp
  have b3: "applyTimezone_p0 sample_env (flag_tz (schema ?K)) (prefs_context ?K) 0 sample_store
              = Some sample_store"
    by (simp add: applyTimezone_p0_def helpers_of_def bounded_p0_def any_p0_def)
  have b4: "resolveArg (resolve ?K) (flag_minDate (schema ?K)) = JMoment 1" by code_simp
  have b5: "resolveArg (resolve ?K) (flag_maxDate (schema ?K)) = JMoment 2" by code_simp
  have b6: "?d = (fst ?d, snd ?d)" by simp
  have b7: "isValid (obj (snd ?d) 1)" by code_simp
  have b8: "isValid (obj (snd ?d) 2)" by code_simp
  have b9: "valueOf (obj (snd ?d) 1) \<le> valueOf (obj (snd ?d) 2)" by code_simp
  note th = coerce_within_bounds [OF t, where E = sample_env and st = sample_store]
  from th [THEN conjunct1, THEN mp, OF conjI [OF a1 conjI [OF a2 conjI [OF a3 conjI [OF a4
        conjI [OF a5 conjI [OF a6 conjI [OF a7 a8]]]]]]]]
  have A: "\<exists>r. fst ?c = ReturnsValue (JMoment r) \<and>
           valueOf (obj (snd ?c) 1) \<le> valueOf (obj (snd ?c) r) \<and>
           valueOf (obj (snd ?c) r) \<le> valueOf (obj (snd ?c) 2)"
    by blast
  from th [THEN conjunct2, THEN mp, OF conjI [OF b1 conjI [OF b2 conjI [OF b3 conjI [OF b4
        conjI [OF b5 conjI [OF b6 conjI [OF b7 conjI [OF b8 b9]]]]]]]]]
  have B: "\<exists>r. fst ?d = ReturnsValue (JMoment r) \<and>
           valueOf (obj (snd ?d) 1) \<le> valueOf (obj (snd ?d) r) \<and>
           valueOf (obj (snd ?d) r) \<le> valueOf (obj (snd ?d) 2)"
    by blast
  have f: "fst ?c = ReturnsValue (JMoment 3)" by code_simp
  have g: "fst ?d = ReturnsValue (JMoment 0)" by code_simp
  from t f A g B show ?thesis by (intro conjI)
qed

text \<open>
  C4. For every unit and every timestamp, truncating to the start of the unit twice in
  sequence gives the same timestamp as truncating once: \<^verbatim>\<open>startOf\<close> is idempotent. The
  unit is any string, also one the library does not know, and the timestamp may be
  invalid; both are then left as they are.
\<close>

theorem startOf_idempotent: "startOf u (startOf u t) = startOf u t"
  by (simp add: startOf_def startOfUnit_idem split: option.splits)

text \<open>
  C5. When both \<^verbatim>\<open>startOf\<close> and \<^verbatim>\<open>endOf\<close> are set, \<^verbatim>\<open>coerce\<close> of either file applies
  the start of period first and the end of period second: the object it has worked on
  holds the end of the \<^verbatim>\<open>endOf\<close> unit of the start of the \<^verbatim>\<open>startOf\<close> unit of the
  timestamp that the timezone block left. This object is what the bound checks then
  compare and, if no bound replaces it, return.
\<close>

theorem startOf_then_endOf:
  assumes "truthy v"
  shows
    "(flagged (flag_startOf (schema H)) = Some su \<and>
      flagged (flag_endOf (schema H)) = Some eu \<and>
      convert_index E st v = (a, st1) \<and> isValid (obj st1 a) \<longrightarrow>
        (\<exists>st'. coerce_index E H st v
                 = (clamp E st' a (flag_min (schema H)) (flag_max (schema H)), st') \<and>
               obj st' a
                 = endOf eu (startOf su
                     (obj (applyTimezone_index E (flag_tz (schema H)) a st1) a)))) \<and>
     (flagged (flag_startOf (schema H')) = Some su' \<and>
      flagged (flag_endOf (schema H')) = Some eu' \<and>
      convert_p0 E st v = (a', st1') \<and> isValid (obj st1' a') \<and>
      applyTimezone_p0 E (flag_tz (schema H')) (prefs_context H') a' st1' = Some st2 \<longrightarrow>
        (\<exists>st'. coerce_p0 E H' st v
                 = (clamp E st' a' (resolveArg (resolve H') (flag_minDate (schema H')))
                      (resolveArg (resolve H') (flag_maxDate (schema H'))), st') \<and>
               obj st' a' = endOf eu' (startOf su' (obj st2 a'))))"
proof (intro conjI impI)
  assume h: "flagged (flag_startOf (schema H)) = Some su \<and>
      flagged (flag_endOf (schema H)) = Some eu \<and>
      convert_index E st v = (a, st1) \<and> isValid (obj st1 a)"
  show "\<exists>st'. coerce_index E H st v
                 = (clamp E st' a (flag_min (schema H)) (flag_max (schema H)), st') \<and>
               obj st' a
                 = endOf eu (startOf su
                     (obj (applyTimezone_index E (flag_tz (schema H)) a st1) a))"
    using coerce_index_valid [of v E st a st1 H] h assms
    by (simp add: obj_mutate rounded_both)
next
  assume h: "flagged (flag_startOf (schema H')) = Some su' \<and>
      flagged (flag_endOf (schema H')) = Some eu' \<and>
      convert_p0 E st v = (a', st1') \<and> isValid (obj st1' a') \<and>
      applyTimezone_p0 E (flag_tz (schema H')) (prefs_context H') a' st1' = Some st2"
  show "\<exists>st'. coerce_p0 E H' st v
                 = (clamp E st' a' (resolveArg (resolve H') (flag_minDate (schema H')))
                      (resolveArg (resolve H') (flag_maxDate (schema H'))), st') \<and>
               obj st' a' = endOf eu' (startOf su' (obj st2 a'))"
    using coerce_p0_valid [of v E st a' st1' H' st2] h assms
    by (simp add: obj_mutate rounded_both)
qed

theorem startOf_then_endOf_witness:
  "truthy (JStr ''2024-06-15'') \<and>
   flagged (flag_startOf (schema (helpers_of rounding_index))) = Some ''month'' \<and>
   flagged (flag_endOf (schema (helpers_of rounding_index))) = Some ''day'' \<and>
   (\<exists>st'. coerce_index sample_env (helpers_of rounding_index) empty_store (JStr ''2024-06-15'')
            = (clamp sample_env st' 0 (flag_min (schema (helpers_of rounding_index)))
                 (flag_max (schema (helpers_of rounding_index))), st') \<and>
          obj st' 0 = endOf ''day'' (startOf ''month'' (utcMoment 1718409600000))) \<and>
   (\<exists>st'. coerce_p0 sample_env (helpers_of rounding_p0) empty_store (JStr ''2024-06-15'')
            = (clamp sample_env st' 0
                 (resolveArg (resolve (helpers_of rounding_p0))
                    (flag_minDate (schema (helpers_of rounding_p0))))
                 (resolveArg (resolve (helpers_of rounding_p0))
                    (flag_maxDate (schema (helpers_of rounding_p0)))), st') \<and>
          obj st' 0 = endOf ''day'' (startOf ''month'' (utcMoment 1718409600000))) \<and>
   endOf ''day'' (startOf ''month'' (utcMoment 1718409600000)) = utcMoment 1717286399999"
proof -
  let ?v = "JStr ''2024-06-15''"
  let ?H = "helpers_of rounding_index"
  let ?K = "helpers_of rounding_p0"
  let ?st1 = "snd (convert_index sample_env empty_store ?v)"
  let ?st2 = "snd (convert_p0 sample_env empty_store ?v)"
  have t: "truthy ?v" by simp
  have s1: "flagged (flag_startOf (schema ?H)) = Some ''month''" by code_simp
  have s2: "flagged (flag_endOf (schema ?H)) = Some ''day''" by code_simp
  have s3: "flagged (flag_startOf (schema ?K)) = Some ''month''" by code_simp
  have s4: "flagged (flag_endOf (schema ?K)) = Some ''day''" by code_simp
  have a1: "convert_index sample_env empty_store ?v = (0, ?st1)"
    by (simp add: convert_index_def alloc_def empty_store_def)
  have a2: "isValid (obj ?st1 0)" by code_simp
  have a3: "obj (applyTimezone_index sample_env (flag_tz (schema ?H)) 0 ?st1) 0
              = utcMoment 1718409600000"
    by code_simp
  have b1: "convert_p0 sample_env empty_store ?v = (0, ?st2)"
    by (simp add: convert_p0_def alloc_def empty_store_def)
  have b2: "isValid (obj ?st2 0)" by code_simp
  have b3: "applyTimezone_p0 sample_env (flag_tz (schema ?K)) (prefs_context ?K) 0 ?st2
              = Some ?st2"
    by (simp add: applyTimezone_p0_def helpers_of_def rounding_p0_def any_p0_def)
  have b4: "obj ?st2 0 = utcMoment 1718409600000" by code_simp
  have e: "endOf ''day'' (startOf ''month'' (utcMoment 1718409600000)) = utcMoment 1717286399999"
    by code_simp
  note th = startOf_then_endOf [OF t, where E = sample_env and st = empty_store]
  from th [THEN conjunct1, THEN mp, OF conjI [OF s1 conjI [OF s2 conjI [OF a1 a2]]]] a3
  have A: "\<exists>st'. coerce_index sample_env ?H empty_store ?v
            = (clamp sample_env st' 0 (flag_min (schema ?H)) (flag_max (schema ?H)), st') \<and>
          obj st' 0 = endOf ''day'' (startOf ''month'' (utcMoment 1718409600000))"
    by simp
  from th [THEN conjunct2, THEN mp,
      OF conjI [OF s3 conjI [OF s4 conjI [OF b1 conjI [OF b2 b3]]]]] b4
  have B: "\<exists>st'. coerce_p0 sample_env ?K empty_store ?v
            = (clamp sample_env st' 0
                 (resolveArg (resolve ?K) (flag_minDate (schema ?K)))
                 (resolveArg (resolve ?K) (flag_maxDate (schema ?K))), st') \<and>
          obj st' 0 = endOf ''day'' (startOf ''month'' (utcMoment 1718409600000))"
    by simp
  from t s1 s2 A B e show ?thesis by (intro conjI)
qed

text \<open>
  C6. The claim: for every valid timestamp, if \<^verbatim>\<open>config.timezone\<close> is set the display
  timezone becomes that zone and the instant does not move; otherwise, if the validation
  context supplies a default timezone, that default is applied; a timezone of the field
  is never overridden by the context's.

  \<^verbatim>\<open>index.js\<close> has no branch for the context: with no \<^verbatim>\<open>tz\<close> flag it leaves the
  timestamp in the zone it was parsed in, whatever the context holds.
\<close>

theorem context_timezone_ignored_index:
  "fst (coerce_index sample_env
          \<lparr>schema = any_index, resolve = (\<lambda>k. JUndefined),
           prefs_context = Some \<lparr>timezone = Some ''Etc/GMT-1''\<rparr>\<rparr>
          empty_store (JStr ''2024-01-01'')) = ReturnsValue (JMoment 0) \<and>
   zoneOffset sample_env ''Etc/GMT-1'' = Some 60 \<and>
   tzName (obj (snd (coerce_index sample_env
          \<lparr>schema = any_index, resolve = (\<lambda>k. JUndefined),
           prefs_context = Some \<lparr>timezone = Some ''Etc/GMT-1''\<rparr>\<rparr>
          empty_store (JStr ''2024-01-01''))) 0) \<noteq> Some ''Etc/GMT-1'' \<and>
   utcOffset (obj (snd (coerce_index sample_env
          \<lparr>schema = any_index, resolve = (\<lambda>k. JUndefined),
           prefs_context = Some \<lparr>timezone = Some ''Etc/GMT-1''\<rparr>\<rparr>
          empty_store (JStr ''2024-01-01''))) 0) \<noteq> 60"
  by code_simp

text \<open>
  C6, amended. In \<^verbatim>\<open>part_000\<close>, for every valid timestamp and every zone \<open>z\<close> that the
  timezone database knows: when the \<^verbatim>\<open>tz\<close> flag is \<open>z\<close>, whatever the context holds,
  or when the flag is not set and the context's timezone is \<open>z\<close>, the timestamp's display
  timezone becomes \<open>z\<close>, and its instant is the parsed one when no period is set. In
  \<^verbatim>\<open>index.js\<close> the same holds when the \<^verbatim>\<open>tz\<close> flag is \<open>z\<close>; when the flag is not set
  the display timezone stays the one of the parsed timestamp, whatever the context holds.
\<close>

theorem timezone_choice:
  assumes "truthy v" and "zoneOffset E z = Some off"
  shows
    "(convert_p0 E st v = (a, st1) \<and> isValid (obj st1 a) \<and>
      (flagged (flag_tz (schema H)) = Some z \<or>
       flagged (flag_tz (schema H)) = None \<and> prefs_context H = Some c \<and>
       flagged (timezone c) = Some z) \<longrightarrow>
        (\<exists>out st'. coerce_p0 E H st v = (out, st') \<and>
           tzName (obj st' a) = Some z \<and> utcOffset (obj st' a) = off \<and>
           (flagged (flag_startOf (schema H)) = None \<and> flagged (flag_endOf (schema H)) = None
              \<longrightarrow> valueOf (obj st' a) = valueOf (obj st1 a)))) \<and>
     (convert_index E st v = (a', st1') \<and> isValid (obj st1' a') \<longrightarrow>
        (\<exists>out st'. coerce_index E H' st v = (out, st') \<and>
           (flagged (flag_tz (schema H')) = Some z
              \<longrightarrow> tzName (obj st' a') = Some z \<and> utcOffset (obj st' a') = off) \<and>
           (flagged (flag_tz (schema H')) = None
              \<longrightarrow> tzName (obj st' a') = tzName (obj st1' a') \<and>
                  utcOffset (obj st' a') = utcOffset (obj st1' a')) \<and>
           (flagged (flag_startOf (schema H')) = None \<and> flagged (flag_endOf (schema H')) = None
              \<longrightarrow> valueOf (obj st' a') = valueOf (obj st1' a'))))"
  using timezone_p0 [OF assms, of st a st1 H c] timezone_index [OF assms, of st a' st1' H']
  by blast

theorem timezone_choice_witness:
  "truthy (JStr ''2024-01-01'') \<and>
   zoneOffset sample_env ''Etc/GMT-1'' = Some 60 \<and>
   flagged (flag_tz (schema zoned_context)) = None \<and>
   prefs_context zoned_context = Some \<lparr>timezone = Some ''Etc/GMT-1''\<rparr> \<and>
   (\<exists>out st'. coerce_p0 sample_env zoned_context empty_store (JStr ''2024-01-01'') = (out, st') \<and>
      tzName (obj st' 0) = Some ''Etc/GMT-1'' \<and> utcOffset (obj st' 0) = 60 \<and>
      valueOf (obj st' 0) = 1704067200000) \<and>
   flagged (flag_tz (schema (helpers_of zoned_index))) = Some ''Etc/GMT-1'' \<and>
   (\<exists>out st'. coerce_index sample_env (helpers_of zoned_index) empty_store (JStr ''2024-01-01'')
                 = (out, st') \<and>
      tzName (obj st' 0) = Some ''Etc/GMT-1'' \<and> utcOffset (obj st' 0) = 60 \<and>
      valueOf (obj st' 0) = 1704067200000)"
proof -
  let ?v = "JStr ''2024-01-01''"
  let ?H = "helpers_of zoned_index"
  let ?st1 = "snd (convert_index sample_env empty_store ?v)"
  let ?st2 = "snd (convert_p0 sample_env empty_store ?v)"
  have t: "truthy ?v" by simp
  have z: "zoneOffset sample_env ''Etc/GMT-1'' = Some 60" by code_simp
  have a1: "convert_p0 sample_env empty_store ?v = (0, ?st2)"
    by (simp add: convert_p0_def alloc_def empty_store_def)
  have a2: "isValid (obj ?st2 0)" by code_simp
  have a3: "flagged (flag_tz (schema zoned_context)) = None" by code_simp
  have a4: "prefs_context zoned_context = Some \<lparr>timezone = Some ''Etc/GMT-1''\<rparr>" by code_simp
  have a5: "flagged (timezone \<lparr>timezone = Some ''Etc/GMT-1''\<rparr>) = Some ''Etc/GMT-1''" by code_simp
  have a6: "flagged (flag_startOf (schema zoned_context)) = None" by code_simp
  have a7: "flagged (flag_endOf (schema zoned_context)) = None" by code_simp
  have a8: "valueOf (obj ?st2 0) = 1704067200000" by code_simp
  have b1: "convert_index sample_env empty_store ?v = (0, ?st1)"
    by (simp add: convert_index_def alloc_def empty_store_def)
  have b2: "isValid (obj ?st1 0)" by code_simp
  have b3: "flagged (flag_tz (schema ?H)) = Some ''Etc/GMT-1''" by code_simp
  have b4: "flagged (flag_startOf (schema ?H)) = None" by code_simp
  have b5: "flagged (flag_endOf (schema ?H)) = None" by code_simp
  have b6: "valueOf (obj ?st1 0) = 1704067200000" by code_simp
  note th = timezone_choice [OF t z, where st = empty_store]
  from th [THEN conjunct1, THEN mp,
      OF conjI [OF a1 conjI [OF a2 disjI2 [OF conjI [OF a3 conjI [OF a4 a5]]]]]] a6 a7 a8
  have A: "\<exists>out st'. coerce_p0 sample_env zoned_context empty_store ?v = (out, st') \<and>
      tzName (obj st' 0) = Some ''Etc/GMT-1'' \<and> utcOffset (obj st' 0) = 60 \<and>
      valueOf (obj st' 0) = 1704067200000"
    by simp
  from th [THEN conjunct2, THEN mp, OF conjI [OF b1 b2], of ?H] b3 b4 b5 b6
  have B: "\<exists>out st'. coerce_index sample_env ?H empty_store ?v = (out, st') \<and>
      tzName (obj st' 0) = Some ''Etc/GMT-1'' \<and> utcOffset (obj st' 0) = 60 \<and>
      valueOf (obj st' 0) = 1704067200000"
    by simp
  from t z a3 a4 A b3 B show ?thesis by (intro conjI)
qed

text \<open>
  C7. For every absent input, that is every falsy value (\<^verbatim>\<open>undefined\<close>, \<^verbatim>\<open>null\<close>,
  the empty string, \<^verbatim>\<open>false\<close>, 0), \<^verbatim>\<open>coerce\<close> of either file returns no value and
  leaves the store as it is, and \<^verbatim>\<open>validate\<close> returns the input itself with no error,
  whatever the schema and the helpers are.
\<close>

theorem absent_input_passes:
  "\<not> truthy v \<Longrightarrow>
     coerce_index E H st v = (ReturnsNothing, st) \<and>
     coerce_p0 E H' st v = (ReturnsNothing, st) \<and>
     validate st v = Returns v"
  by (simp add: coerce_index_def coerce_p0_def validate_def)

theorem absent_input_passes_witness:
  "\<not> truthy (JStr '''') \<and>
   coerce_index sample_env (helpers_of any_index) empty_store (JStr '''')
     = (ReturnsNothing, empty_store) \<and>
   coerce_p0 sample_env (helpers_of any_p0) empty_store (JStr '''')
     = (ReturnsNothing, empty_store) \<and>
   validate empty_store (JStr '''') = Returns (JStr '''')"
  using absent_input_passes
    [of "JStr ''''" sample_env "helpers_of any_index" empty_store "helpers_of any_p0"]
  by simp

text \<open>
  C8. The claim: a comparison rule whose \<^verbatim>\<open>date\<close> argument is absent passes every
  value unchanged.

  The rules of \<^verbatim>\<open>index.js\<close> have no test of the date. The empty string is an absent
  date that a rule of \<^verbatim>\<open>index.js\<close> takes as its argument, since it is a string:
  \<^verbatim>\<open>isBefore('', 'day')\<close> and \<^verbatim>\<open>isAfter('', 'day')\<close>. The rule parses it to an invalid
  timestamp, with which no comparison holds, so the validation of \<^verbatim>\<open>"2024-01-01"\<close>
  ends with the rule's error and the value is not passed.
\<close>

theorem absent_date_fails_index:
  "\<not> truthy (JStr '''') \<and>
   joi_validate_index sample_env
     (helpers_of (isBefore_method (Lit (JStr '''')) (Some ''day'') any_index))
     empty_store (JStr ''2024-01-01'')
     = ReturnsError (Report ''moment.isBefore'' (Some (Parsed invalidMoment, ''day''))) \<and>
   joi_validate_index sample_env
     (helpers_of (isAfter_method (Lit (JStr '''')) (Some ''day'') any_index))
     empty_store (JStr ''2024-01-01'')
     = ReturnsError (Report ''moment.isAfter'' (Some (Parsed invalidMoment, ''day'')))"
  by code_simp

text \<open>
  C8, amended. In \<^verbatim>\<open>part_000\<close>, each of the four comparison rules returns the value
  unchanged, with no error, when its \<^verbatim>\<open>date\<close> argument is falsy (\<^verbatim>\<open>undefined\<close>,
  \<^verbatim>\<open>null\<close>, the empty string), whatever the value and the precision are.
\<close>

theorem absent_date_passes_p0:
  "\<not> truthy date \<Longrightarrow>
     isBefore_validate_p0 E st v date p = Returns v \<and>
     isAfter_validate_p0 E st v date p = Returns v \<and>
     isSameOrBefore_validate_p0 E st v date p = Returns v \<and>
     isSameOrAfter_validate_p0 E st v date p = Returns v"
  by (simp add: isBefore_validate_p0_def isAfter_validate_p0_def
      isSameOrBefore_validate_p0_def isSameOrAfter_validate_p0_def guarded_validate_def)

theorem absent_date_passes_p0_witness:
  "\<not> truthy JUndefined \<and>
   isBefore_validate_p0 sample_env sample_store (JMoment 0) JUndefined (Some ''day'')
     = Returns (JMoment 0) \<and>
   isAfter_validate_p0 sample_env sample_store (JMoment 0) JUndefined (Some ''day'')
     = Returns (JMoment 0) \<and>
   isSameOrBefore_validate_p0 sample_env sample_store (JMoment 0) JUndefined (Some ''day'')
     = Returns (JMoment 0) \<and>
   isSameOrAfter_validate_p0 sample_env sample_store (JMoment 0) JUndefined (Some ''day'')
     = Returns (JMoment 0)"
proof -
  have h: "\<not> truthy JUndefined" by simp
  from h absent_date_passes_p0 [OF h, of sample_env sample_store "JMoment 0" "Some ''day''"]
  show ?thesis by (intro conjI) simp_all
qed

text \<open>
  C9. The claim: for the input \<^verbatim>\<open>"2024-01-01"\<close> and a schema whose rule is
  \<^verbatim>\<open>isAfter("2024-06-01", "day")\<close>, validation fails with the error \<^verbatim>\<open>moment.isAfter\<close>
  whose data are the date 2024-06-01 and the precision \<^verbatim>\<open>"day"\<close>.

  In \<^verbatim>\<open>part_000\<close> the scenario ends otherwise when the caller gives no context, and
  the scenario names none: \<^verbatim>\<open>prefs.context\<close> is then \<^verbatim>\<open>null\<close>, the schema has
  no \<^verbatim>\<open>tz\<close> flag, and \<^verbatim>\<open>coerce\<close> reads \<^verbatim>\<open>prefs.context.timezone\<close> (line 56), which
  throws before any rule runs. The theorem states this for every parser that reads the
  input as a valid timestamp, every store and every scope.
\<close>

theorem isAfter_scenario_null_context:
  assumes "isValid (iso_8601 E (JStr ''2024-01-01''))"
    and "schema H = isAfter_method (Lit (JStr ''2024-06-01'')) (Some ''day'') any_p0"
    and "prefs_context H = None"
  shows "coerce_p0 E H st (JStr ''2024-01-01'')
           = (Throws, snd (convert_p0 E st (JStr ''2024-01-01''))) \<and>
         joi_validate_p0 E H st (JStr ''2024-01-01'') = Throws"
  using assms
  by (simp add: joi_validate_p0_def coerce_p0_def convert_p0_def alloc_def
      applyTimezone_p0_def pipeline_def isAfter_method_def addRule_def any_p0_def)

theorem isAfter_scenario_null_context_witness:
  "isValid (iso_8601 sample_env (JStr ''2024-01-01'')) \<and>
   prefs_context ((helpers_of
       (isAfter_method (Lit (JStr ''2024-06-01'')) (Some ''day'') any_p0))
         \<lparr>prefs_context := None\<rparr>) = None \<and>
   fst (coerce_p0 sample_env
     ((helpers_of (isAfter_method (Lit (JStr ''2024-06-01'')) (Some ''day'') any_p0))
        \<lparr>prefs_context := None\<rparr>)
     empty_store (JStr ''2024-01-01'')) = Throws \<and>
   joi_validate_p0 sample_env
     ((helpers_of (isAfter_method (Lit (JStr ''2024-06-01'')) (Some ''day'') any_p0))
        \<lparr>prefs_context := None\<rparr>)
     empty_store (JStr ''2024-01-01'') = Throws"
proof -
  let ?H = "(helpers_of (isAfter_method (Lit (JStr ''2024-06-01'')) (Some ''day'') any_p0))
        \<lparr>prefs_context := None\<rparr>"
  have h1: "isValid (iso_8601 sample_env (JStr ''2024-01-01''))" by code_simp
  have h2: "schema ?H = isAfter_method (Lit (JStr ''2024-06-01'')) (Some ''day'') any_p0"
    by (simp add: helpers_of_def)
  have h3: "prefs_context ?H = None" by simp
  from isAfter_scenario_null_context [OF h1 h2 h3, of empty_store]
  have c: "fst (coerce_p0 sample_env ?H empty_store (JStr ''2024-01-01'')) = Throws"
    and j: "joi_validate_p0 sample_env ?H empty_store (JStr ''2024-01-01'') = Throws"
    by simp_all
  from h1 h3 c j show ?thesis by (intro conjI)
qed

text \<open>
  \<^verbatim>\<open>index.js\<close>, which does not read the context, does what C9 says, and so does
  \<^verbatim>\<open>part_000\<close> when the caller gave a context, with or without a timezone: validation
  ends with the error \<^verbatim>\<open>moment.isAfter\<close> whose data are the timestamp parsed from
  \<^verbatim>\<open>"2024-06-01"\<close> and the precision \<^verbatim>\<open>"day"\<close>, for every parser that reads the two
  strings as valid timestamps, the first not after the second.
\<close>

lemma isAfter_scenario:
  assumes "isValid (iso_8601 E (JStr ''2024-01-01''))"
    and "isValid (iso_8601 E (JStr ''2024-06-01''))"
    and "valueOf (iso_8601 E (JStr ''2024-01-01'')) \<le> valueOf (iso_8601 E (JStr ''2024-06-01''))"
    and "schema H = isAfter_method (Lit (JStr ''2024-06-01'')) (Some ''day'') any_index"
    and "schema H' = isAfter_method (Lit (JStr ''2024-06-01'')) (Some ''day'') any_p0"
    and "prefs_context H' = Some c"
  shows "joi_validate_index E H st (JStr ''2024-01-01'')
           = ReturnsError (Report ''moment.isAfter''
               (Some (Parsed (iso_8601 E (JStr ''2024-06-01'')), ''day''))) \<and>
         joi_validate_p0 E H' st (JStr ''2024-01-01'')
           = ReturnsError (Report ''moment.isAfter''
               (Some (Parsed (iso_8601 E (JStr ''2024-06-01'')), ''day'')))"
proof
  show "joi_validate_index E H st (JStr ''2024-01-01'')
           = ReturnsError (Report ''moment.isAfter''
               (Some (Parsed (iso_8601 E (JStr ''2024-06-01'')), ''day'')))"
    using assms(1-4)
    by (simp add: joi_validate_index_def coerce_index_def convert_index_def alloc_def
        applyTimezone_index_def applyPeriod_def clamp_def pipeline_def validate_def
        isAfter_method_def addRule_def any_index_def applyRule_def rules_index_def
        resolveArg_def isAfter_validate_index_def compare_validate_def dateMoment_def
        mutate_def isAfter_day_not)
next
  have z: "\<not> isAfter (tz E z (iso_8601 E (JStr ''2024-01-01'')))
               (iso_8601 E (JStr ''2024-06-01'')) (Some ''day'')" for z
    using assms(3) by (intro isAfter_day_not) (simp add: valueOf_tz)
  show "joi_validate_p0 E H' st (JStr ''2024-01-01'')
           = ReturnsError (Report ''moment.isAfter''
               (Some (Parsed (iso_8601 E (JStr ''2024-06-01'')), ''day'')))"
    using assms(1-3,5,6) z
    by (cases "flagged (timezone c)")
       (simp_all add: joi_validate_p0_def coerce_p0_def convert_p0_def alloc_def
        applyTimezone_p0_def applyPeriod_def clamp_def pipeline_def validate_def
        isAfter_method_def addRule_def any_p0_def applyRule_def rules_p0_def
        resolveArg_def isAfter_validate_p0_def guarded_validate_def compare_validate_def
        dateMoment_def mutate_def isAfter_day_not isValid_tz)
qed

lemma isAfter_scenario_example:
  "isValid (iso_8601 sample_env (JStr ''2024-01-01'')) \<and>
   isValid (iso_8601 sample_env (JStr ''2024-06-01'')) \<and>
   valueOf (iso_8601 sample_env (JStr ''2024-01-01''))
     \<le> valueOf (iso_8601 sample_env (JStr ''2024-06-01'')) \<and>
   joi_validate_index sample_env
     (helpers_of (isAfter_method (Lit (JStr ''2024-06-01'')) (Some ''day'') any_index))
     empty_store (JStr ''2024-01-01'')
     = ReturnsError (Report ''moment.isAfter''
         (Some (Parsed (utcMoment 1717200000000), ''day''))) \<and>
   joi_validate_p0 sample_env
     (helpers_of (isAfter_method (Lit (JStr ''2024-06-01'')) (Some ''day'') any_p0))
     empty_store (JStr ''2024-01-01'')
     = ReturnsError (Report ''moment.isAfter''
         (Some (Parsed (utcMoment 1717200000000), ''day'')))"
proof -
  have h1: "isValid (iso_8601 sample_env (JStr ''2024-01-01''))" by code_simp
  have h2: "isValid (iso_8601 sample_env (JStr ''2024-06-01''))" by code_simp
  have h3: "valueOf (iso_8601 sample_env (JStr ''2024-01-01''))
     \<le> valueOf (iso_8601 sample_env (JStr ''2024-06-01''))" by code_simp
  have h4: "schema (helpers_of (isAfter_method (Lit (JStr ''2024-06-01'')) (Some ''day'') any_index))
     = isAfter_method (Lit (JStr ''2024-06-01'')) (Some ''day'') any_index"
    by (simp add: helpers_of_def)
  have h5: "schema (helpers_of (isAfter_method (Lit (JStr ''2024-06-01'')) (Some ''day'') any_p0))
     = isAfter_method (Lit (JStr ''2024-06-01'')) (Some ''day'') any_p0"
    by (simp add: helpers_of_def)
  have h6: "prefs_context (helpers_of (isAfter_method (Lit (JStr ''2024-06-01'')) (Some ''day'') any_p0))
     = Some \<lparr>timezone = None\<rparr>"
    by (simp add: helpers_of_def)
  have p: "iso_8601 sample_env (JStr ''2024-06-01'') = utcMoment 1717200000000" by code_simp
  show ?thesis
    using h1 h2 h3 isAfter_scenario [OF h1 h2 h3 h4 h5 h6, of empty_store]
    by (simp only: p simp_thms)
qed

text \<open>
  C10. In \<^verbatim>\<open>part_000\<close>, when the input is a moment object already (and valid, and the
  timezone block does not throw), \<^verbatim>\<open>coerce\<close> makes no copy: no object is added to the
  store, no object but the input's is changed, the input's own object holds the timestamp
  after timezone, start and end of period, and when no bound replaces it the value
  returned is the input's own address.
\<close>

theorem coerce_p0_in_place:
  assumes "isValid (obj st a)"
    and "applyTimezone_p0 E (flag_tz (schema H)) (prefs_context H) a st = Some st2"
  shows "\<exists>st'. coerce_p0 E H st (JMoment a)
                 = (clamp E st' a (resolveArg (resolve H) (flag_minDate (schema H)))
                      (resolveArg (resolve H) (flag_maxDate (schema H))), st') \<and>
           next_addr st' = next_addr st \<and>
           (\<forall>b. b \<noteq> a \<longrightarrow> obj st' b = obj st b) \<and>
           obj st' a = rounded (flag_startOf (schema H)) (flag_endOf (schema H)) (obj st2 a) \<and>
           (obj st2 a = obj st a \<or> (\<exists>z. obj st2 a = tz E z (obj st a))) \<and>
           (\<not> (truthy (resolveArg (resolve H) (flag_minDate (schema H))) \<and>
               isBefore (obj st' a)
                 (toMoment E st' (resolveArg (resolve H) (flag_minDate (schema H)))) None) \<and>
            \<not> (truthy (resolveArg (resolve H) (flag_maxDate (schema H))) \<and>
               isAfter (obj st' a)
                 (toMoment E st' (resolveArg (resolve H) (flag_maxDate (schema H)))) None)
            \<longrightarrow> clamp E st' a (resolveArg (resolve H) (flag_minDate (schema H)))
                   (resolveArg (resolve H) (flag_maxDate (schema H)))
                 = ReturnsValue (JMoment a))"
proof -
  have c: "convert_p0 E st (JMoment a) = (a, st)" by (simp add: convert_p0_def)
  have t: "truthy (JMoment a)" by simp
  note v = coerce_p0_valid [OF t c assms(1) assms(2)]
  note f = applyTimezone_p0_frame [OF assms(2)]
  show ?thesis
    using v f by (auto simp: obj_mutate next_addr_mutate intro: clamp_kept)
qed

theorem coerce_p0_in_place_witness:
  "isValid (obj sample_store 0) \<and>
   fst (coerce_p0 sample_env (helpers_of day_in_zone) sample_store (JMoment 0))
     = ReturnsValue (JMoment 0) \<and>
   (\<exists>st'. snd (coerce_p0 sample_env (helpers_of day_in_zone) sample_store (JMoment 0)) = st' \<and>
      next_addr st' = next_addr sample_store \<and>
      obj st' 0 = rounded (Some ''day'') None (tz sample_env ''Etc/GMT-1'' (obj sample_store 0))) \<and>
   valueOf (rounded (Some ''day'') None (tz sample_env ''Etc/GMT-1'' (obj sample_store 0)))
     = 1704063600000"
proof -
  let ?H = "helpers_of day_in_zone"
  let ?c = "coerce_p0 sample_env ?H sample_store (JMoment 0)"
  let ?st2 = "mutate 0 (tz sample_env ''Etc/GMT-1'') sample_store"
  have h1: "isValid (obj sample_store 0)" by code_simp
  have h2: "applyTimezone_p0 sample_env (flag_tz (schema ?H)) (prefs_context ?H) 0 sample_store
              = Some ?st2"
    by (simp add: applyTimezone_p0_def helpers_of_def day_in_zone_def any_p0_def)
  have f1: "flag_startOf (schema ?H) = Some ''day''" by code_simp
  have f2: "flag_endOf (schema ?H) = None" by code_simp
  have f3: "obj ?st2 0 = tz sample_env ''Etc/GMT-1'' (obj sample_store 0)"
    by (simp add: obj_mutate)
  have g: "fst ?c = ReturnsValue (JMoment 0)" by code_simp
  have e: "valueOf (rounded (Some ''day'') None (tz sample_env ''Etc/GMT-1'' (obj sample_store 0)))
     = 1704063600000" by code_simp
  from coerce_p0_in_place [OF h1 h2] f1 f2 f3
  have A: "\<exists>st'. snd ?c = st' \<and> next_addr st' = next_addr sample_store \<and>
      obj st' 0 = rounded (Some ''day'') None (tz sample_env ''Etc/GMT-1'' (obj sample_store 0))"
    by auto
  from h1 g A e show ?thesis by (intro conjI)
qed


end
